theory Spec2Isabelle
  imports Main "HOL-Library.AList" "HOL-Library.List_Lexorder" "HOL-Library.Char_ord"
begin

section \<open>Python values\<close>

text \<open>
  Task and study identifiers reach the program either as integers (the task list of a
  study) or as strings (a command-line option); both are formatted by f-strings.
\<close>

datatype pyid = IntId int | StrId string

fun str_nat :: "nat \<Rightarrow> string" where
  "str_nat n =
     (if n < 10 then [char_of (48 + n)]
      else str_nat (n div 10) @ [char_of (48 + n mod 10)])"

declare str_nat.simps [simp del]

definition str_int :: "int \<Rightarrow> string" where
  "str_int i = (if i < 0 then CHR ''-'' # str_nat (nat (- i)) else str_nat (nat i))"

fun format_id :: "pyid \<Rightarrow> string" where
  "format_id (IntId i) = str_int i"
| "format_id (StrId s) = s"

fun is_int_id :: "pyid \<Rightarrow> bool" where
  "is_int_id (IntId i) = True"
| "is_int_id (StrId s) = False"

text \<open>An argument that is a string or \<open>None\<close>, as an f-string renders it.\<close>

definition format_opt :: "string option \<Rightarrow> string" where
  "format_opt x = (case x of None \<Rightarrow> ''None'' | Some s \<Rightarrow> s)"

text \<open>Truthiness of such an argument: \<open>None\<close> and the empty string are false.\<close>

definition truthy :: "string option \<Rightarrow> bool" where
  "truthy x = (case x of None \<Rightarrow> False | Some s \<Rightarrow> s \<noteq> [])"

text \<open>
  The values that JSON text denotes and that \<open>json.dump\<close> accepts: dictionaries keep
  their insertion order, and a key is a string or an integer. Floating-point numbers
  are left out of the model.
\<close>

datatype pykey = KStr string | KInt int

datatype pyval =
    PNone
  | PBool bool
  | PInt int
  | PStr string
  | PList "pyval list"
  | PDict "(pykey \<times> pyval) list"

section \<open>Preprocessing pipelines and wrappers\<close>

datatype step =
    ConditionalImputer "bool list" string string
  | OneHotEncoder "bool list" string bool

type_synonym pipeline = "step list"

definition make_pipeline :: "step \<Rightarrow> step \<Rightarrow> pipeline" where
  "make_pipeline a b = [a, b]"

datatype wrapper =
    TPOTWrapper "pipeline option" "(string \<times> pyval) list"
  | AutoSklearnWrapper "pipeline option" "(string \<times> pyval) list"

section \<open>Errors, the outside world and effects\<close>

datatype call =
    GetStudy pyid
  | GetTask pyid
  | GetDataset pyid
  | GetData pyid
  | RunModelOnTask pyid wrapper
  | Publish pyid wrapper

datatype error =
    ValueError string
  | ClickException string
  | OSError string
  | TypeError string
  | KeyError string
  | AttributeError string
  | JSONDecodeError
  | RecursionError
  | Unmodelled string
  | ConstructorError
  | ServiceError call

text \<open>
  What the collaborators answer: the tracking service, the wrapper constructors and the
  host's queue command. The program never looks inside them, so they are parameters.
\<close>

record env =
  study_tasks :: "pyid \<Rightarrow> pyid list option"
  task_known :: "pyid \<Rightarrow> bool"
  dataset_known :: "pyid \<Rightarrow> bool"
  categorical_indicator :: "pyid \<Rightarrow> bool list option"
  wrapper_accepts :: "wrapper \<Rightarrow> bool"
  run_succeeds :: "pyid \<Rightarrow> wrapper \<Rightarrow> bool"
  published_run_id :: "pyid \<Rightarrow> wrapper \<Rightarrow> int option"
  qsub_available :: bool

text \<open>
  The state the program reads and changes: directories and regular files (by path, as
  written), the tracking client's process-global configuration, the calls made to the
  tracking service so far (oldest first, each with the API key in effect when it was
  made), the paths opened for writing so far (oldest first), standard output, and the
  scripts handed to the queue.
\<close>

record world =
  dirs :: "string list"
  files :: "(string \<times> string) list"
  apikey :: string
  server :: string
  calls :: "(string \<times> call) list"
  written :: "string list"
  stdout :: "string list"
  submitted :: "string list"

type_synonym 'a io = "world \<Rightarrow> (error + 'a) \<times> world"

definition io_return :: "'a \<Rightarrow> 'a io" where
  "io_return x = (\<lambda>w. (Inr x, w))"

definition io_raise :: "error \<Rightarrow> 'a io" where
  "io_raise e = (\<lambda>w. (Inl e, w))"

definition io_bind :: "'a io \<Rightarrow> ('a \<Rightarrow> 'b io) \<Rightarrow> 'b io" where
  "io_bind m f = (\<lambda>w. case m w of (Inl e, w') \<Rightarrow> (Inl e, w') | (Inr x, w') \<Rightarrow> f x w')"

definition io_lift :: "error + 'a \<Rightarrow> 'a io" where
  "io_lift r = (\<lambda>w. (r, w))"

subsection \<open>Paths and files\<close>

text \<open>
  Paths are compared as written, up to trailing slashes of a directory name; the empty
  directory name stands for the working directory (or the root), which always exists.
\<close>

definition dirname :: "string \<Rightarrow> string" where
  "dirname p =
     (if CHR ''/'' \<in> set p then rev (tl (dropWhile (\<lambda>c. c \<noteq> CHR ''/'') (rev p))) else [])"

definition basename :: "string \<Rightarrow> string" where
  "basename p = rev (takeWhile (\<lambda>c. c \<noteq> CHR ''/'') (rev p))"

definition strip_slashes :: "string \<Rightarrow> string" where
  "strip_slashes p = rev (dropWhile (\<lambda>c. c = CHR ''/'') (rev p))"

definition path_join :: "string \<Rightarrow> string \<Rightarrow> string" where
  "path_join a b =
     (if b \<noteq> [] \<and> hd b = CHR ''/'' then b
      else if a = [] \<or> last a = CHR ''/'' then a @ b
      else a @ CHR ''/'' # b)"

definition isfile :: "world \<Rightarrow> string \<Rightarrow> bool" where
  "isfile w p = (map_of (files w) p \<noteq> None)"

definition isdir :: "world \<Rightarrow> string \<Rightarrow> bool" where
  "isdir w p = (p \<noteq> [] \<and> (strip_slashes p = [] \<or> strip_slashes p \<in> set (dirs w)))"

definition path_exists :: "world \<Rightarrow> string \<Rightarrow> bool" where
  "path_exists w p = (isdir w p \<or> isfile w p)"

definition parent_exists :: "world \<Rightarrow> string \<Rightarrow> bool" where
  "parent_exists w p = (dirname p = [] \<or> dirname p \<in> set (dirs w))"

definition can_open_w :: "world \<Rightarrow> string \<Rightarrow> bool" where
  "can_open_w w p = (p \<noteq> [] \<and> last p \<noteq> CHR ''/'' \<and> \<not> isdir w p \<and> parent_exists w p)"

text \<open>\<open>open(p, "w")\<close> and \<open>open(p, "w+")\<close>: create or truncate.\<close>

definition open_w :: "string \<Rightarrow> unit io" where
  "open_w p = (\<lambda>w.
     if can_open_w w p then
       (Inr (), w\<lparr>files := AList.update p [] (files w), written := written w @ [p]\<rparr>)
     else (Inl (OSError p), w))"

text \<open>\<open>f.write(s)\<close> on the file opened at \<open>p\<close>: append.\<close>

definition fwrite :: "string \<Rightarrow> string \<Rightarrow> unit io" where
  "fwrite p s = (\<lambda>w.
     (Inr (), w\<lparr>files := AList.update p
        ((case map_of (files w) p of None \<Rightarrow> [] | Some c \<Rightarrow> c) @ s) (files w)\<rparr>))"

text \<open>\<open>open(p, "r")\<close> (or \<open>"r+"\<close>) followed by reading the whole file.\<close>

definition read_file :: "string \<Rightarrow> string io" where
  "read_file p = (\<lambda>w.
     case map_of (files w) p of None \<Rightarrow> (Inl (OSError p), w) | Some c \<Rightarrow> (Inr c, w))"

fun prefixes_at_slash :: "string \<Rightarrow> string \<Rightarrow> string list" where
  "prefixes_at_slash acc [] = [acc]"
| "prefixes_at_slash acc (c # cs) =
     (if c = CHR ''/'' then acc # prefixes_at_slash (acc @ [c]) cs
      else prefixes_at_slash (acc @ [c]) cs)"

definition ancestors :: "string \<Rightarrow> string list" where
  "ancestors p =
     filter (\<lambda>s. s \<noteq> []) (map strip_slashes (prefixes_at_slash [] (strip_slashes p)))"

text \<open>\<open>os.makedirs(p)\<close>: the directory and every missing directory above it.\<close>

definition makedirs :: "string \<Rightarrow> unit io" where
  "makedirs p = (\<lambda>w.
     if p = [] \<or> path_exists w p \<or> list_ex (isfile w) (ancestors p) then (Inl (OSError p), w)
     else (Inr (), w\<lparr>dirs := dirs w @ filter (\<lambda>a. a \<notin> set (dirs w)) (remdups (ancestors p))\<rparr>))"

text \<open>\<open>os.listdir(d)\<close>: the names directly under \<open>d\<close>, in the order of the store.\<close>

definition listdir :: "string \<Rightarrow> string list io" where
  "listdir d = (\<lambda>w.
     if isdir w d then
       (Inr (map basename (filter (\<lambda>p. dirname p = strip_slashes d) (map fst (files w) @ dirs w))), w)
     else (Inl (OSError d), w))"

definition print :: "string \<Rightarrow> unit io" where
  "print s = (\<lambda>w. (Inr (), w\<lparr>stdout := stdout w @ [s]\<rparr>))"

text \<open>\<open>subprocess.call(["qsub", p])\<close>; the exit status is discarded by the caller.\<close>

definition qsub :: "env \<Rightarrow> string \<Rightarrow> unit io" where
  "qsub E p = (\<lambda>w.
     if qsub_available E then (Inr (), w\<lparr>submitted := submitted w @ [p]\<rparr>)
     else (Inl (OSError ''qsub''), w))"

subsection \<open>The tracking service\<close>

text \<open>A call is recorded with the key in effect, then answers or fails.\<close>

definition api :: "call \<Rightarrow> 'a option \<Rightarrow> 'a io" where
  "api c r = (\<lambda>w.
     let w' = w\<lparr>calls := calls w @ [(apikey w, c)]\<rparr>
     in case r of None \<Rightarrow> (Inl (ServiceError c), w') | Some x \<Rightarrow> (Inr x, w'))"

definition get_study_tasks :: "env \<Rightarrow> pyid \<Rightarrow> pyid list io" where
  "get_study_tasks E sid = api (GetStudy sid) (study_tasks E sid)"

definition get_task :: "env \<Rightarrow> pyid \<Rightarrow> pyid io" where
  "get_task E tid = api (GetTask tid) (if task_known E tid then Some tid else None)"

definition get_dataset :: "env \<Rightarrow> pyid \<Rightarrow> pyid io" where
  "get_dataset E task = api (GetDataset task) (if dataset_known E task then Some task else None)"

definition get_data_categorical :: "env \<Rightarrow> pyid \<Rightarrow> bool list io" where
  "get_data_categorical E dataset = api (GetData dataset) (categorical_indicator E dataset)"

definition run_model_on_task :: "env \<Rightarrow> pyid \<Rightarrow> wrapper \<Rightarrow> (pyid \<times> wrapper) io" where
  "run_model_on_task E task clf =
     api (RunModelOnTask task clf) (if run_succeeds E task clf then Some (task, clf) else None)"

definition publish :: "env \<Rightarrow> pyid \<times> wrapper \<Rightarrow> int io" where
  "publish E run = api (Publish (fst run) (snd run)) (published_run_id E (fst run) (snd run))"

section \<open>JSON text\<close>

text \<open>
  The standard library's \<open>json.dump\<close> and \<open>json.load\<close>, as far as the values above go.
  \<open>json.dump\<close> escapes everything outside printable ASCII, turns integer keys into
  strings, separates items with \<open>", "\<close> (or \<open>","\<close> and a line break with \<open>indent\<close>
  spaces per level), and with \<open>sort_keys\<close> sorts the items of every dictionary, which
  fails when a dictionary mixes string and integer keys. When encoding fails, the model
  leaves the file as it was opened; Python has by then written the chunks before the
  failure.
\<close>

subsection \<open>Writing\<close>

definition hex_digit :: "nat \<Rightarrow> char" where
  "hex_digit n = ''0123456789abcdef'' ! n"

definition escape_char :: "char \<Rightarrow> string" where
  "escape_char c =
     (if c = CHR 0x22 then [CHR 0x5C, CHR 0x22]
      else if c = CHR 0x5C then [CHR 0x5C, CHR 0x5C]
      else if c = CHR 0x0A then [CHR 0x5C, CHR ''n'']
      else if c = CHR 0x0D then [CHR 0x5C, CHR ''r'']
      else if c = CHR 0x09 then [CHR 0x5C, CHR ''t'']
      else if c = CHR 0x08 then [CHR 0x5C, CHR ''b'']
      else if c = CHR 0x0C then [CHR 0x5C, CHR ''f'']
      else if (of_char c :: nat) < 0x20 \<or> 0x7E < (of_char c :: nat) then
        [CHR 0x5C, CHR ''u'', CHR ''0'', CHR ''0'',
         hex_digit (of_char c div 16), hex_digit (of_char c mod 16)]
      else [c])"

definition json_string :: "string \<Rightarrow> string" where
  "json_string s = CHR 0x22 # concat (map escape_char s) @ [CHR 0x22]"

fun key_text :: "pykey \<Rightarrow> string" where
  "key_text (KStr s) = s"
| "key_text (KInt i) = str_int i"

definition newline_indent :: "nat option \<Rightarrow> nat \<Rightarrow> string" where
  "newline_indent ind lvl =
     (case ind of None \<Rightarrow> [] | Some n \<Rightarrow> CHR 0x0A # replicate (n * lvl) CHR '' '')"

definition item_separator :: "nat option \<Rightarrow> string" where
  "item_separator ind = (case ind of None \<Rightarrow> '', '' | Some n \<Rightarrow> '','')"

fun render :: "nat option \<Rightarrow> nat \<Rightarrow> pyval \<Rightarrow> string"
  and render_more :: "nat option \<Rightarrow> nat \<Rightarrow> pyval list \<Rightarrow> string"
  and render_members :: "nat option \<Rightarrow> nat \<Rightarrow> (pykey \<times> pyval) list \<Rightarrow> string"
where
  "render ind lvl PNone = ''null''"
| "render ind lvl (PBool b) = (if b then ''true'' else ''false'')"
| "render ind lvl (PInt i) = str_int i"
| "render ind lvl (PStr s) = json_string s"
| "render ind lvl (PList []) = ''[]''"
| "render ind lvl (PList (v # vs)) =
     ''['' @ newline_indent ind (Suc lvl) @ render ind (Suc lvl) v @
     render_more ind (Suc lvl) vs @ newline_indent ind lvl @ '']''"
| "render ind lvl (PDict []) = ''{}''"
| "render ind lvl (PDict ((k, v) # kvs)) =
     ''{'' @ newline_indent ind (Suc lvl) @
     json_string (key_text k) @ '': '' @ render ind (Suc lvl) v @
     render_members ind (Suc lvl) kvs @ newline_indent ind lvl @ ''}''"
| "render_more ind lvl [] = []"
| "render_more ind lvl (v # vs) =
     item_separator ind @ newline_indent ind lvl @ render ind lvl v @ render_more ind lvl vs"
| "render_members ind lvl [] = []"
| "render_members ind lvl ((k, v) # kvs) =
     item_separator ind @ newline_indent ind lvl @
     json_string (key_text k) @ '': '' @ render ind lvl v @ render_members ind lvl kvs"




fun is_KStr :: "pykey \<Rightarrow> bool" where
  "is_KStr (KStr s) = True"
| "is_KStr (KInt i) = False"

fun key_str :: "pykey \<Rightarrow> string" where
  "key_str (KStr s) = s"
| "key_str (KInt i) = []"

fun key_int :: "pykey \<Rightarrow> int" where
  "key_int (KInt i) = i"
| "key_int (KStr s) = 0"

definition comparable :: "pykey list \<Rightarrow> bool" where
  "comparable ks = (list_all is_KStr ks \<or> list_all (\<lambda>k. \<not> is_KStr k) ks)"

definition sort_items :: "(pykey \<times> 'a) list \<Rightarrow> (pykey \<times> 'a) list" where
  "sort_items kvs =
     (if list_all (\<lambda>kv. is_KStr (fst kv)) kvs then sort_key (\<lambda>kv. key_str (fst kv)) kvs
      else sort_key (\<lambda>kv. key_int (fst kv)) kvs)"

fun sortable :: "pyval \<Rightarrow> bool"
  and sortable_list :: "pyval list \<Rightarrow> bool"
  and sortable_items :: "(pykey \<times> pyval) list \<Rightarrow> bool"
where
  "sortable (PList vs) = sortable_list vs"
| "sortable (PDict kvs) = (comparable (map fst kvs) \<and> sortable_items kvs)"
| "sortable v = True"
| "sortable_list [] = True"
| "sortable_list (v # vs) = (sortable v \<and> sortable_list vs)"
| "sortable_items [] = True"
| "sortable_items ((k, v) # kvs) = (sortable v \<and> sortable_items kvs)"

fun sort_all :: "pyval \<Rightarrow> pyval"
  and sort_all_list :: "pyval list \<Rightarrow> pyval list"
  and sort_all_items :: "(pykey \<times> pyval) list \<Rightarrow> (pykey \<times> pyval) list"
where
  "sort_all (PList vs) = PList (sort_all_list vs)"
| "sort_all (PDict kvs) = PDict (sort_items (sort_all_items kvs))"
| "sort_all v = v"
| "sort_all_list [] = []"
| "sort_all_list (v # vs) = sort_all v # sort_all_list vs"
| "sort_all_items [] = []"
| "sort_all_items ((k, v) # kvs) = (k, sort_all v) # sort_all_items kvs"

definition json_dumps :: "nat option \<Rightarrow> bool \<Rightarrow> pyval \<Rightarrow> error + string" where
  "json_dumps indent sort_keys obj =
     (if sort_keys then
        (if sortable obj then Inr (render indent 0 (sort_all obj))
         else Inl (TypeError ''< not supported between instances of int and str''))
      else Inr (render indent 0 obj))"

subsection \<open>Reading\<close>

text \<open>
  \<open>json.load\<close>: a recursive-descent parser. The fuel bounds the nesting plus the number
  of items in a row; \<open>json_loads\<close> hands over more than the text can use, so that
  \<open>RecursionError\<close> is never its answer (Python's recursion limit is not modelled).
  Numbers with a
  fraction or an exponent, \<open>NaN\<close>, \<open>Infinity\<close> and escapes above code point 255 are outside the
  model (\<open>Unmodelled\<close>).
\<close>

definition is_ws :: "char \<Rightarrow> bool" where
  "is_ws c = (c = CHR '' '' \<or> c = CHR 0x09 \<or> c = CHR 0x0A \<or> c = CHR 0x0D)"

definition skip_ws :: "string \<Rightarrow> string" where
  "skip_ws s = dropWhile is_ws s"

definition is_digit :: "char \<Rightarrow> bool" where
  "is_digit c = ((48::nat) \<le> of_char c \<and> (of_char c :: nat) \<le> 57)"

definition digit_val :: "char \<Rightarrow> nat" where
  "digit_val c = of_char c - 48"

definition nat_of_digits :: "string \<Rightarrow> nat" where
  "nat_of_digits ds = foldl (\<lambda>a c. 10 * a + digit_val c) 0 ds"

definition hex_val :: "char \<Rightarrow> nat option" where
  "hex_val c =
     (if is_digit c then Some (of_char c - 48)
      else if (97::nat) \<le> of_char c \<and> (of_char c :: nat) \<le> 102 then Some (of_char c - 87)
      else if (65::nat) \<le> of_char c \<and> (of_char c :: nat) \<le> 70 then Some (of_char c - 55)
      else None)"

definition unescape :: "char \<Rightarrow> char option" where
  "unescape e =
     (if e = CHR 0x22 then Some (CHR 0x22)
      else if e = CHR 0x5C then Some (CHR 0x5C)
      else if e = CHR ''/'' then Some (CHR ''/'')
      else if e = CHR ''b'' then Some (CHR 0x08)
      else if e = CHR ''f'' then Some (CHR 0x0C)
      else if e = CHR ''n'' then Some (CHR 0x0A)
      else if e = CHR ''r'' then Some (CHR 0x0D)
      else if e = CHR ''t'' then Some (CHR 0x09)
      else None)"


fun scan_string :: "string \<Rightarrow> string \<Rightarrow> error + string \<times> string" where
  "scan_string acc [] = Inl JSONDecodeError"
| "scan_string acc (c # cs) =
     (if c = CHR 0x22 then Inr (acc, cs)
      else if c = CHR 0x5C then
        (case cs of
           [] \<Rightarrow> Inl JSONDecodeError
         | e # es \<Rightarrow>
             if e = CHR ''u'' then
               (case es of
                  h1 # h2 # h3 # h4 # rest \<Rightarrow>
                    (case (hex_val h1, hex_val h2, hex_val h3, hex_val h4) of
                       (Some a, Some b, Some x, Some y) \<Rightarrow>
                         if a = 0 \<and> b = 0 then scan_string (acc @ [char_of (16 * x + y)]) rest
                         else Inl (Unmodelled ''code point above 255'')
                     | _ \<Rightarrow> Inl JSONDecodeError)
                | _ \<Rightarrow> Inl JSONDecodeError)
             else
               (case unescape e of
                  None \<Rightarrow> Inl JSONDecodeError
                | Some ch \<Rightarrow> scan_string (acc @ [ch]) es))
      else if (of_char c :: nat) < 0x20 then Inl JSONDecodeError
      else scan_string (acc @ [c]) cs)"

definition has_frac :: "string \<Rightarrow> bool" where
  "has_frac rest = (case rest of c # d # r \<Rightarrow> c = CHR ''.'' \<and> is_digit d | _ \<Rightarrow> False)"

definition has_exp :: "string \<Rightarrow> bool" where
  "has_exp rest =
     (case rest of
        [] \<Rightarrow> False
      | c # r \<Rightarrow>
          (c = CHR ''e'' \<or> c = CHR ''E'') \<and>
          (case r of
             [] \<Rightarrow> False
           | s # r' \<Rightarrow>
               is_digit s \<or>
               ((s = CHR ''+'' \<or> s = CHR ''-'') \<and> (case r' of [] \<Rightarrow> False | d # r'' \<Rightarrow> is_digit d))))"

definition finish_number :: "bool \<Rightarrow> string \<Rightarrow> string \<Rightarrow> error + pyval \<times> string" where
  "finish_number neg ds rest =
     (if has_frac rest \<or> has_exp rest then Inl (Unmodelled ''float'')
      else Inr (PInt (if neg then - int (nat_of_digits ds) else int (nat_of_digits ds)), rest))"

definition no_number :: "string \<Rightarrow> error + pyval \<times> string" where
  "no_number s =
     (if take 3 s = ''NaN'' \<or> take 8 s = ''Infinity'' \<or> take 9 s = ''-Infinity''
      then Inl (Unmodelled ''float'') else Inl JSONDecodeError)"

definition parse_number :: "string \<Rightarrow> error + pyval \<times> string" where
  "parse_number s =
     (let neg = (s \<noteq> [] \<and> hd s = CHR ''-''); s1 = (if neg then tl s else s) in
      case s1 of
        [] \<Rightarrow> no_number s
      | d # ds \<Rightarrow>
          if d = CHR ''0'' then finish_number neg [d] ds
          else if is_digit d then
            finish_number neg (d # takeWhile is_digit ds) (dropWhile is_digit ds)
          else no_number s)"

text \<open>\<open>dict(pairs)\<close>: a repeated key keeps its first place and takes the last value.\<close>

definition dict_of_pairs :: "(pykey \<times> pyval) list \<Rightarrow> (pykey \<times> pyval) list" where
  "dict_of_pairs pairs = fold (\<lambda>kv d. AList.update (fst kv) (snd kv) d) pairs []"

fun parse_value :: "nat \<Rightarrow> string \<Rightarrow> (error + pyval \<times> string) option"
  and parse_elems :: "nat \<Rightarrow> pyval list \<Rightarrow> string \<Rightarrow> (error + pyval \<times> string) option"
  and parse_members ::
    "nat \<Rightarrow> (pykey \<times> pyval) list \<Rightarrow> string \<Rightarrow> (error + pyval \<times> string) option"
where
  "parse_value 0 s = None"
| "parse_value (Suc n) s =
     (case s of
        [] \<Rightarrow> Some (Inl JSONDecodeError)
      | c # cs \<Rightarrow>
          if c = CHR 0x22 then
            (case scan_string [] cs of
               Inl e \<Rightarrow> Some (Inl e)
             | Inr (str, r) \<Rightarrow> Some (Inr (PStr str, r)))
          else if c = CHR ''{'' then
            (case skip_ws cs of
               [] \<Rightarrow> Some (Inl JSONDecodeError)
             | d # ds \<Rightarrow>
                 if d = CHR ''}'' then Some (Inr (PDict [], ds))
                 else if d = CHR 0x22 then parse_members n [] ds
                 else Some (Inl JSONDecodeError))
          else if c = CHR ''['' then
            (case skip_ws cs of
               [] \<Rightarrow> parse_elems n [] []
             | d # ds \<Rightarrow>
                 if d = CHR '']'' then Some (Inr (PList [], ds))
                 else parse_elems n [] (d # ds))
          else if c = CHR ''n'' \<and> take 4 s = ''null'' then Some (Inr (PNone, drop 4 s))
          else if c = CHR ''t'' \<and> take 4 s = ''true'' then Some (Inr (PBool True, drop 4 s))
          else if c = CHR ''f'' \<and> take 5 s = ''false'' then Some (Inr (PBool False, drop 5 s))
          else Some (parse_number s))"
| "parse_elems 0 acc s = None"
| "parse_elems (Suc n) acc s =
     (case parse_value n s of
        None \<Rightarrow> None
      | Some (Inl e) \<Rightarrow> Some (Inl e)
      | Some (Inr (v, r)) \<Rightarrow>
          (case skip_ws r of
             [] \<Rightarrow> Some (Inl JSONDecodeError)
           | d # ds \<Rightarrow>
               if d = CHR '']'' then Some (Inr (PList (acc @ [v]), ds))
               else if d = CHR '','' then parse_elems n (acc @ [v]) (skip_ws ds)
               else Some (Inl JSONDecodeError)))"
| "parse_members 0 acc s = None"
| "parse_members (Suc n) acc s =
     (case scan_string [] s of
        Inl e \<Rightarrow> Some (Inl e)
      | Inr (key, r) \<Rightarrow>
          (case skip_ws r of
             [] \<Rightarrow> Some (Inl JSONDecodeError)
           | c # cs \<Rightarrow>
               if c \<noteq> CHR '':'' then Some (Inl JSONDecodeError)
               else
                 (case parse_value n (skip_ws cs) of
                    None \<Rightarrow> None
                  | Some (Inl e) \<Rightarrow> Some (Inl e)
                  | Some (Inr (v, r2)) \<Rightarrow>
                      (case skip_ws r2 of
                         [] \<Rightarrow> Some (Inl JSONDecodeError)
                       | d # ds \<Rightarrow>
                           if d = CHR ''}'' then
                             Some (Inr (PDict (dict_of_pairs (acc @ [(KStr key, v)])), ds))
                           else if d = CHR '','' then
                             (case skip_ws ds of
                                [] \<Rightarrow> Some (Inl JSONDecodeError)
                              | q # qs \<Rightarrow>
                                  if q = CHR 0x22 then parse_members n (acc @ [(KStr key, v)]) qs
                                  else Some (Inl JSONDecodeError))
                           else Some (Inl JSONDecodeError)))))"

definition json_loads :: "string \<Rightarrow> error + pyval" where
  "json_loads s =
     (case parse_value (Suc (2 * length s)) (skip_ws s) of
        None \<Rightarrow> Inl RecursionError
      | Some (Inl e) \<Rightarrow> Inl e
      | Some (Inr (v, rest)) \<Rightarrow> if skip_ws rest = [] then Inr v else Inl JSONDecodeError)"

section \<open>The job generator\<close>

record benchmark =
  python_interpreter :: string
  jobs_dir :: string
  config_file :: string
  headers :: string

definition default_arg :: "'a \<Rightarrow> 'a option \<Rightarrow> 'a" where
  "default_arg d x = (case x of None \<Rightarrow> d | Some v \<Rightarrow> v)"

text \<open>\<open>Benchmark.__init__\<close>; an omitted keyword argument is \<open>None\<close> here.\<close>

definition Benchmark_init ::
  "string \<Rightarrow> string \<Rightarrow> string option \<Rightarrow> string option \<Rightarrow> benchmark io" where
  "Benchmark_init hdrs interp jobs_dir_arg config_file_arg = (\<lambda>w.
     let jd = default_arg ''jobs'' jobs_dir_arg;
         self = \<lparr>python_interpreter = interp, jobs_dir = jd,
                 config_file = default_arg ''config.json'' config_file_arg, headers = hdrs\<rparr>
     in if \<not> path_exists w jd then io_bind (makedirs jd) (\<lambda>_. io_return self) w
        else io_return self w)"

definition job_file :: "string \<Rightarrow> pyid \<Rightarrow> string" where
  "job_file clf_name task_id = ''jobs/'' @ clf_name @ ''_'' @ format_id task_id @ ''.sh''"

definition create_job ::
  "benchmark \<Rightarrow> pyid \<Rightarrow> string \<Rightarrow> string option \<Rightarrow> string \<Rightarrow> benchmark io" where
  "create_job self task_id clf_name preprocessor log =
     (let f = job_file clf_name task_id in
      io_bind (open_w f) (\<lambda>_.
      io_bind (fwrite f (headers self @ [CHR 0x0A])) (\<lambda>_.
      io_bind (fwrite f (python_interpreter self @ '' -m arbok '')) (\<lambda>_.
      io_bind (fwrite f (''--classifier '' @ clf_name @ '' '')) (\<lambda>_.
      io_bind (fwrite f (''--task-id '' @ format_id task_id @ '' '')) (\<lambda>_.
      io_bind (fwrite f (''--config '' @ config_file self @ '' '')) (\<lambda>_.
      io_bind (fwrite f (''--preprocessor '' @ format_opt preprocessor @ '' '')) (\<lambda>_.
      io_bind (fwrite f (''--log '' @ log @ '' '')) (\<lambda>_.
      io_return self)))))))))"

text \<open>
  The generated job script format: the caller's header verbatim, then one line invoking
  the module with the five flags, each value inlined and followed by a space.
\<close>

definition job_script ::
  "benchmark \<Rightarrow> pyid \<Rightarrow> string \<Rightarrow> string option \<Rightarrow> string \<Rightarrow> string" where
  "job_script self task_id clf_name preprocessor log =
     headers self @ [CHR 0x0A] @ python_interpreter self @ '' -m arbok '' @
     ''--classifier '' @ clf_name @ '' '' @
     ''--task-id '' @ format_id task_id @ '' '' @
     ''--config '' @ config_file self @ '' '' @
     ''--preprocessor '' @ format_opt preprocessor @ '' '' @
     ''--log '' @ log @ '' ''"

fun create_jobs_tasks :: "benchmark \<Rightarrow> string \<Rightarrow> pyid list \<Rightarrow> unit io" where
  "create_jobs_tasks self clf [] = io_return ()"
| "create_jobs_tasks self clf (task_id # tasks) =
     io_bind (create_job self task_id clf (Some ''default'') ''log.json'')
       (\<lambda>_. create_jobs_tasks self clf tasks)"

fun create_jobs_classifiers :: "benchmark \<Rightarrow> pyid list \<Rightarrow> string list \<Rightarrow> unit io" where
  "create_jobs_classifiers self tasks [] = io_return ()"
| "create_jobs_classifiers self tasks (clf # classifiers) =
     io_bind (create_jobs_tasks self clf tasks)
       (\<lambda>_. create_jobs_classifiers self tasks classifiers)"

definition create_jobs :: "benchmark \<Rightarrow> pyid list \<Rightarrow> string list option \<Rightarrow> benchmark io" where
  "create_jobs self tasks classifiers =
     io_bind (create_jobs_classifiers self tasks
                (default_arg [''tpot'', ''autosklearn''] classifiers))
       (\<lambda>_. io_return self)"

fun submit_files :: "env \<Rightarrow> string list \<Rightarrow> unit io" where
  "submit_files E [] = io_return ()"
| "submit_files E (file # rest) =
     io_bind (print (''Submitting jobs/'' @ file)) (\<lambda>_.
     io_bind (qsub E (''jobs/'' @ file)) (\<lambda>_.
     submit_files E rest))"

definition submit_jobs :: "env \<Rightarrow> benchmark \<Rightarrow> benchmark io" where
  "submit_jobs E self =
     io_bind (listdir ''jobs/'') (\<lambda>names. (\<lambda>w.
       io_bind (submit_files E (filter (\<lambda>f. isfile w (path_join ''jobs/'' f)) names))
         (\<lambda>_. io_return self) w))"

definition get_tasks_for_study :: "env \<Rightarrow> pyid \<Rightarrow> pyid list io" where
  "get_tasks_for_study E study_id = get_study_tasks E study_id"

section \<open>The job runner\<close>

definition get_preprocessor :: "env \<Rightarrow> pyid \<Rightarrow> string option \<Rightarrow> pipeline option io" where
  "get_preprocessor E task_id name =
     (case name of
        None \<Rightarrow> io_return None
      | Some n \<Rightarrow>
          io_bind (get_task E task_id) (\<lambda>task.
          io_bind (get_dataset E task) (\<lambda>dataset.
          io_bind (get_data_categorical E dataset) (\<lambda>categorical.
            let categorical = butlast categorical in
            if n = ''default'' then
              io_return (Some (make_pipeline
                (ConditionalImputer categorical ''mean'' ''most_frequent'')
                (OneHotEncoder categorical ''ignore'' False)))
            else io_raise (ValueError (''Preprocessor '' @ n @ '' unknown''))))))"

text \<open>
  Keyword expansion \<open>f(preprocessor=p, **a, **b)\<close>: both arguments must be dictionaries
  with string keys, and no keyword may be given twice.
\<close>

fun key_name :: "pykey \<Rightarrow> string option" where
  "key_name (KStr s) = Some s"
| "key_name (KInt i) = None"

fun kwargs :: "pyval \<Rightarrow> error + (string \<times> pyval) list" where
  "kwargs (PDict kvs) =
     (if list_all (\<lambda>(k, v). key_name k \<noteq> None) kvs
      then Inr (map (\<lambda>(k, v). (the (key_name k), v)) kvs)
      else Inl (TypeError ''keywords must be strings''))"
| "kwargs v = Inl (TypeError ''argument after ** must be a mapping'')"

definition merge_kwargs :: "pyval \<Rightarrow> pyval \<Rightarrow> error + (string \<times> pyval) list" where
  "merge_kwargs a b =
     (case kwargs a of
        Inl e \<Rightarrow> Inl e
      | Inr ka \<Rightarrow>
          (case kwargs b of
             Inl e \<Rightarrow> Inl e
           | Inr kb \<Rightarrow>
               if distinct (''preprocessor'' # map fst ka @ map fst kb) then Inr (ka @ kb)
               else Inl (TypeError ''got multiple values for keyword argument'')))"

definition construct ::
  "env \<Rightarrow> (pipeline option \<Rightarrow> (string \<times> pyval) list \<Rightarrow> wrapper) \<Rightarrow> pipeline option \<Rightarrow>
   pyval \<Rightarrow> pyval \<Rightarrow> wrapper io" where
  "construct E cls preprocessor a b =
     (case merge_kwargs a b of
        Inl e \<Rightarrow> io_raise e
      | Inr kw \<Rightarrow>
          if wrapper_accepts E (cls preprocessor kw) then io_return (cls preprocessor kw)
          else io_raise ConstructorError)"

definition set_apikey :: "string \<Rightarrow> unit io" where
  "set_apikey k = (\<lambda>w. (Inr (), w\<lparr>apikey := k\<rparr>))"

definition get_server :: "string io" where
  "get_server = (\<lambda>w. (Inr (server w), w))"

definition run_job ::
  "env \<Rightarrow> string \<Rightarrow> pyid \<Rightarrow> pyval \<Rightarrow> pyval \<Rightarrow> pyval \<Rightarrow> string option \<Rightarrow> string option \<Rightarrow>
   (int \<times> string) io" where
  "run_job E clf_name task_id wrapper_config tpot_config autosklearn_config preprocessor key =
     io_bind (case key of
                Some k \<Rightarrow> if truthy key then set_apikey k else io_return ()
              | None \<Rightarrow> io_return ()) (\<lambda>_.
     io_bind (get_preprocessor E task_id preprocessor) (\<lambda>preprocessor.
     io_bind
       (if clf_name = ''tpot'' then
          construct E TPOTWrapper preprocessor wrapper_config tpot_config
        else if clf_name = ''autosklearn'' then
          construct E AutoSklearnWrapper preprocessor wrapper_config autosklearn_config
        else io_raise (ValueError (''Classifier name '' @ clf_name @ '' unknown''))) (\<lambda>clf.
     io_bind (get_task E task_id) (\<lambda>task.
     io_bind (run_model_on_task E task clf) (\<lambda>run.
     io_bind (publish E run) (\<lambda>run_id.
     io_bind get_server (\<lambda>srv.
     io_return (run_id, srv @ ''/json/run/'' @ str_int run_id))))))))"

section \<open>Configuration file and command line\<close>

text \<open>\<open>json.dump(obj, f, ...)\<close> on the file opened at \<open>f\<close>.\<close>

definition json_dump :: "pyval \<Rightarrow> string \<Rightarrow> nat option \<Rightarrow> bool \<Rightarrow> unit io" where
  "json_dump obj f indent sort_keys =
     io_bind (io_lift (json_dumps indent sort_keys obj)) (fwrite f)"

text \<open>\<open>json.load(f)\<close> on the file at \<open>f\<close>.\<close>

definition json_load :: "string \<Rightarrow> pyval io" where
  "json_load f = io_bind (read_file f) (\<lambda>s. io_lift (json_loads s))"


text \<open>\<open>cfg[name]\<close> and \<open>data.update({key: value})\<close>.\<close>

fun subscript :: "pyval \<Rightarrow> string \<Rightarrow> error + pyval" where
  "subscript (PDict kvs) name =
     (case map_of kvs (KStr name) of None \<Rightarrow> Inl (KeyError name) | Some v \<Rightarrow> Inr v)"
| "subscript v name = Inl (TypeError ''indices must be integers'')"

fun dict_update :: "pyval \<Rightarrow> pykey \<Rightarrow> pyval \<Rightarrow> error + pyval" where
  "dict_update (PDict kvs) k v = Inr (PDict (AList.update k v kvs))"
| "dict_update d k v = Inl (AttributeError ''update'')"

text \<open>The last block of \<open>cli\<close> (\<open># Store output\<close>): read, merge, write.\<close>

definition store_output :: "string \<Rightarrow> int \<Rightarrow> string \<Rightarrow> unit io" where
  "store_output log run_id output = (\<lambda>w.
     io_bind (if isfile w log then json_load log else io_return (PDict [])) (\<lambda>data.
     io_bind (io_lift (dict_update data (KInt run_id) (PStr output))) (\<lambda>data.
     io_bind (open_w log) (\<lambda>_.
     json_dump data log None False))) w)"

definition cli ::
  "env \<Rightarrow> string \<Rightarrow> string option \<Rightarrow> string \<Rightarrow> string \<Rightarrow> string option \<Rightarrow> string \<Rightarrow> unit io"
  where
  "cli E classifier task_id config preprocessor key log = (\<lambda>w.
     if \<not> truthy task_id then io_raise (ClickException ''Please specify a task id.'') w
     else if \<not> isfile w config then
       io_raise (ClickException ''The configuration file does not exist.'') w
     else
       io_bind (json_load config) (\<lambda>cfg.
       io_bind (io_lift (subscript cfg ''tpot'')) (\<lambda>tpot.
       io_bind (io_lift (subscript cfg ''autosklearn'')) (\<lambda>autosklearn.
       io_bind (io_lift (subscript cfg ''wrapper'')) (\<lambda>wrapper.
       io_bind (print (''Running '' @ classifier @ '' on task '' @ format_opt task_id @ ''.'')) (\<lambda>_.
       io_bind (run_job E classifier (StrId (format_opt task_id)) wrapper tpot autosklearn
                  (Some preprocessor) key) (\<lambda>(run_id, output).
       store_output log run_id output)))))) w)"

text \<open>
  The command line as \<open>click\<close> hands it over: an option that is not given is \<open>None\<close>
  and takes its declared default; \<open>--task-id\<close> and \<open>--apikey\<close> have none.
\<close>

record options =
  opt_classifier :: "string option"
  opt_task_id :: "string option"
  opt_config :: "string option"
  opt_preprocessor :: "string option"
  opt_apikey :: "string option"
  opt_log :: "string option"

definition cli_command :: "env \<Rightarrow> options \<Rightarrow> unit io" where
  "cli_command E opts =
     cli E (default_arg ''tpot'' (opt_classifier opts)) (opt_task_id opts)
       (default_arg ''config.json'' (opt_config opts))
       (default_arg ''default'' (opt_preprocessor opts)) (opt_apikey opts)
       (default_arg ''log.json'' (opt_log opts))"

text \<open>
  How the process ends: \<open>click\<close> prints \<open>Error: message\<close> for a \<open>ClickException\<close> and
  exits with status 1; any other exception ends the interpreter with a traceback and
  status 1; otherwise the status is 0.
\<close>

fun exit_status :: "error + 'a \<Rightarrow> int \<times> string option" where
  "exit_status (Inl (ClickException msg)) = (1, Some (''Error: '' @ msg))"
| "exit_status (Inl e) = (1, None)"
| "exit_status (Inr x) = (0, None)"

section \<open>Values that survive JSON\<close>











section \<open>Invariants of effects\<close>

definition preserves :: "(world \<Rightarrow> bool) \<Rightarrow> 'a io \<Rightarrow> bool" where
  "preserves P m = (\<forall>w. P w \<longrightarrow> P (snd (m w)))"

text \<open>
  Since the world \<open>w0\<close>, the key in effect is \<open>k\<close> and every call made went out under it.
\<close>

definition keyed :: "string \<Rightarrow> world \<Rightarrow> world \<Rightarrow> bool" where
  "keyed k w0 w =
     (apikey w = k \<and> (\<exists>new. calls w = calls w0 @ new \<and> list_all (\<lambda>c. fst c = k) new))"

section \<open>A sample environment\<close>

definition env0 :: env where
  "env0 = \<lparr>study_tasks = (\<lambda>_. Some [IntId 3, IntId 6]),
           task_known = (\<lambda>_. True),
           dataset_known = (\<lambda>_. True),
           categorical_indicator = (\<lambda>_. Some [False, True, False]),
           wrapper_accepts = (\<lambda>_. True),
           run_succeeds = (\<lambda>_ _. True),
           published_run_id = (\<lambda>_ _. Some 2),
           qsub_available = True\<rparr>"

definition env_offline :: env where
  "env_offline = env0\<lparr>task_known := (\<lambda>_. False)\<rparr>"

definition world0 :: world where
  "world0 = \<lparr>dirs = [''jobs''], files = [], apikey = [], server = ''srv'',
             calls = [], written = [], stdout = [], submitted = []\<rparr>"

definition world1 :: world where
  "world1 = world0\<lparr>files := [(''jobs/tpot_3.sh'', ''old''), (''log.json'', ''{}'')]\<rparr>"


definition bench0 :: benchmark where
  "bench0 = \<lparr>python_interpreter = ''python'', jobs_dir = ''jobs'',
             config_file = ''config.json'', headers = ''#PBS''\<rparr>"


section \<open>Properties\<close>

subsection \<open>Effects, step by step\<close>

lemma io_bind_return [simp]: "io_bind (io_return x) f = f x"
  by (simp add: io_bind_def io_return_def)

lemma io_bind_raise [simp]: "io_bind (io_raise e) f = io_raise e"
  by (simp add: io_bind_def io_raise_def)

lemma io_bind_apply:
  "io_bind m f w = (case m w of (Inl e, w') \<Rightarrow> (Inl e, w') | (Inr x, w') \<Rightarrow> f x w')"
  by (simp add: io_bind_def)

lemma char_of_digits:
  "char_of (48::nat) = CHR ''0''" "char_of (49::nat) = CHR ''1''" "char_of (50::nat) = CHR ''2''"
  "char_of (51::nat) = CHR ''3''" "char_of (52::nat) = CHR ''4''" "char_of (53::nat) = CHR ''5''"
  "char_of (54::nat) = CHR ''6''" "char_of (55::nat) = CHR ''7''" "char_of (56::nat) = CHR ''8''"
  "char_of (57::nat) = CHR ''9''"
  by code_simp+

lemmas eval_str = str_int_def str_nat.simps char_of_digits

lemmas eval_path = can_open_w_def isdir_def isfile_def path_exists_def parent_exists_def
  dirname_def basename_def strip_slashes_def path_join_def

lemma api_Some: "api c (Some x) w = (Inr x, w\<lparr>calls := calls w @ [(apikey w, c)]\<rparr>)"
  by (simp add: api_def)

lemma api_None:
  "api c None w = (Inl (ServiceError c), w\<lparr>calls := calls w @ [(apikey w, c)]\<rparr>)"
  by (simp add: api_def)

subsection \<open>Digits\<close>

lemma of_char_digit: "d < 10 \<Longrightarrow> (of_char (char_of (48 + d :: nat)) :: nat) = 48 + d"
  by (simp add: of_char_of)

lemma is_digit_char_of: "d < 10 \<Longrightarrow> is_digit (char_of (48 + d :: nat))"
  by (simp add: is_digit_def of_char_digit)

lemma digit_val_char_of: "d < 10 \<Longrightarrow> digit_val (char_of (48 + d :: nat)) = d"
  by (simp add: digit_val_def of_char_digit)

lemma str_nat_digits: "list_all is_digit (str_nat n)"
  by (induction n rule: str_nat.induct) (subst str_nat.simps, simp add: is_digit_char_of)

lemma str_nat_nonempty: "str_nat n \<noteq> []"
  by (subst str_nat.simps) simp

lemma nat_of_digits_snoc: "nat_of_digits (ds @ [c]) = 10 * nat_of_digits ds + digit_val c"
  by (simp add: nat_of_digits_def)

lemma nat_of_digits_str_nat: "nat_of_digits (str_nat n) = n"
proof (induction n rule: str_nat.induct)
  case (1 n)
  show ?case
  proof (cases "n < 10")
    case True
    then show ?thesis
      by (subst str_nat.simps) (simp add: nat_of_digits_def digit_val_char_of)
  next
    case False
    with 1 show ?thesis
      by (subst str_nat.simps) (simp add: nat_of_digits_snoc digit_val_char_of)
  qed
qed







lemma is_digit_not_minus: "is_digit c \<Longrightarrow> c \<noteq> CHR ''-''"
  by (auto simp: is_digit_def)


lemma hd_str_nat_digit: "is_digit (hd (str_nat m))"
  using str_nat_digits [of m] str_nat_nonempty [of m] by (cases "str_nat m") simp_all


subsection \<open>Job file names\<close>

lemma str_nat_inj: "str_nat m = str_nat n \<Longrightarrow> m = n"
  by (metis nat_of_digits_str_nat)

lemma str_int_inj:
  assumes "str_int i = str_int j"
  shows "i = j"
proof -
  have neg: "hd (str_int k) = CHR ''-'' \<longleftrightarrow> k < 0" for k
    using hd_str_nat_digit [of "nat k"] by (auto simp: str_int_def dest: is_digit_not_minus)
  from assms neg [of i] neg [of j] have sign: "i < 0 \<longleftrightarrow> j < 0" by simp
  show ?thesis
  proof (cases "i < 0")
    case True
    with sign assms have "str_nat (nat (- i)) = str_nat (nat (- j))" by (simp add: str_int_def)
    from str_nat_inj [OF this] True sign show ?thesis by simp
  next
    case False
    with sign assms have "str_nat (nat i) = str_nat (nat j)" by (simp add: str_int_def)
    from str_nat_inj [OF this] False sign show ?thesis by simp
  qed
qed

lemma is_digit_not_underscore: "is_digit c \<Longrightarrow> c \<noteq> CHR ''_''"
  by (auto simp: is_digit_def)

lemma str_int_no_underscore: "CHR ''_'' \<notin> set (str_int i)"
  using str_nat_digits [of "nat i"] str_nat_digits [of "nat (- i)"]
  by (auto simp: str_int_def list_all_iff dest: is_digit_not_underscore)

lemma takeWhile_until: "x \<notin> set xs \<Longrightarrow> takeWhile (\<lambda>c. c \<noteq> x) (xs @ x # ys) = xs"
  by (induction xs) auto

lemma split_at_last_underscore:
  assumes "c1 @ CHR ''_'' # s1 = c2 @ CHR ''_'' # s2"
    and "CHR ''_'' \<notin> set s1" "CHR ''_'' \<notin> set s2"
  shows "c1 = c2 \<and> s1 = s2"
proof -
  from assms(1) have "rev s1 @ CHR ''_'' # rev c1 = rev s2 @ CHR ''_'' # rev c2"
    by (metis rev.simps(2) rev_append append.assoc append_Cons append_Nil)
  then have "takeWhile (\<lambda>c. c \<noteq> CHR ''_'') (rev s1 @ CHR ''_'' # rev c1) =
      takeWhile (\<lambda>c. c \<noteq> CHR ''_'') (rev s2 @ CHR ''_'' # rev c2)"
    by simp
  with assms(2,3) have "rev s1 = rev s2"
    by (simp add: takeWhile_until)
  with assms(1) show ?thesis by simp
qed

lemma job_file_inj:
  assumes "job_file c1 (IntId i) = job_file c2 (IntId j)"
  shows "c1 = c2 \<and> i = j"
proof -
  from assms have "c1 @ CHR ''_'' # str_int i = c2 @ CHR ''_'' # str_int j"
    by (simp add: job_file_def)
  from split_at_last_underscore [OF this str_int_no_underscore str_int_no_underscore]
  show ?thesis by (auto dest: str_int_inj)
qed

lemma distinct_job_files:
  assumes "distinct cs" "distinct ts" "list_all is_int_id ts"
  shows "distinct (map (\<lambda>(c, t). job_file c t) (List.product cs ts))"
proof -
  have "inj_on (\<lambda>(c, t). job_file c t) (set (List.product cs ts))"
  proof (rule inj_onI)
    fix x y
    assume x: "x \<in> set (List.product cs ts)" and y: "y \<in> set (List.product cs ts)"
      and eq: "(case x of (c, t) \<Rightarrow> job_file c t) = (case y of (c, t) \<Rightarrow> job_file c t)"
    obtain c1 t1 c2 t2 where xy: "x = (c1, t1)" "y = (c2, t2)" by (cases x, cases y) auto
    with x y assms(3) obtain i j where "t1 = IntId i" "t2 = IntId j"
      by (cases t1; cases t2) (auto simp: list_all_iff)
    with eq xy job_file_inj [of c1 i c2 j] show "x = y" by simp
  qed
  with assms(1,2) show ?thesis by (simp add: distinct_map distinct_product)
qed

subsection \<open>Resolving the preprocessor\<close>

lemma get_preprocessor_None: "get_preprocessor E t None w = (Inr None, w)"
  by (simp add: get_preprocessor_def io_return_def)

lemma get_preprocessor_fetched:
  assumes "task_known E t" "dataset_known E t" "categorical_indicator E t = Some cs"
  shows "get_preprocessor E t (Some n) w =
    (if n = ''default''
     then Inr (Some [ConditionalImputer (butlast cs) ''mean'' ''most_frequent'',
                     OneHotEncoder (butlast cs) ''ignore'' False])
     else Inl (ValueError (''Preprocessor '' @ n @ '' unknown'')),
     w\<lparr>calls := calls w @
        [(apikey w, GetTask t), (apikey w, GetDataset t), (apikey w, GetData t)]\<rparr>)"
  using assms
  by (simp add: get_preprocessor_def io_bind_apply get_task_def get_dataset_def
      get_data_categorical_def api_Some io_return_def io_raise_def make_pipeline_def Let_def)

lemma get_preprocessor_fails:
  assumes "n \<noteq> ''default''"
  shows "\<exists>e. fst (get_preprocessor E t (Some n) w) = Inl e"
  using assms
  by (auto simp add: get_preprocessor_def io_bind_apply get_task_def get_dataset_def
      get_data_categorical_def api_def io_return_def io_raise_def Let_def split: option.splits)

lemma get_preprocessor_task_unknown:
  assumes "\<not> task_known E t"
  shows "get_preprocessor E t (Some n) w =
     (Inl (ServiceError (GetTask t)), w\<lparr>calls := calls w @ [(apikey w, GetTask t)]\<rparr>)"
  using assms by (simp add: get_preprocessor_def io_bind_apply get_task_def api_None)

lemma get_preprocessor_dataset_unknown:
  assumes "task_known E t" "\<not> dataset_known E t"
  shows "get_preprocessor E t (Some n) w =
     (Inl (ServiceError (GetDataset t)),
      w\<lparr>calls := calls w @ [(apikey w, GetTask t), (apikey w, GetDataset t)]\<rparr>)"
  using assms
  by (simp add: get_preprocessor_def io_bind_apply get_task_def get_dataset_def api_Some api_None)

lemma get_preprocessor_indicator_unknown:
  assumes "task_known E t" "dataset_known E t" "categorical_indicator E t = None"
  shows "get_preprocessor E t (Some n) w =
     (Inl (ServiceError (GetData t)),
      w\<lparr>calls := calls w @
        [(apikey w, GetTask t), (apikey w, GetDataset t), (apikey w, GetData t)]\<rparr>)"
  using assms
  by (simp add: get_preprocessor_def io_bind_apply get_task_def get_dataset_def
      get_data_categorical_def api_Some api_None)

text \<open>
  Claim C5, as the code has it. \<open>get_preprocessor(task_id, None)\<close> returns \<open>None\<close> and
  touches nothing. With a name that is neither \<open>None\<close> nor \<open>"default"\<close> the call always
  fails, but the name is looked at only after the task, its dataset and the categorical
  indicator have been fetched. When the three fetches succeed, the failure is the
  unknown-preprocessor error and exactly these three calls have been made, in this
  order. When a fetch fails, the failure is the tracking service's own error for that
  fetch and the calls made are those up to it: one when the task cannot be fetched, two
  when the dataset cannot, three when the indicator cannot.
\<close>

theorem get_preprocessor_none_or_unknown:
  "get_preprocessor E t None w = (Inr None, w) \<and>
   (n \<noteq> ''default'' \<longrightarrow>
      (\<exists>e. fst (get_preprocessor E t (Some n) w) = Inl e) \<and>
      (task_known E t \<and> dataset_known E t \<and> categorical_indicator E t \<noteq> None \<longrightarrow>
         get_preprocessor E t (Some n) w =
           (Inl (ValueError (''Preprocessor '' @ n @ '' unknown'')),
            w\<lparr>calls := calls w @
              [(apikey w, GetTask t), (apikey w, GetDataset t), (apikey w, GetData t)]\<rparr>)) \<and>
      (\<not> task_known E t \<longrightarrow>
         get_preprocessor E t (Some n) w =
           (Inl (ServiceError (GetTask t)), w\<lparr>calls := calls w @ [(apikey w, GetTask t)]\<rparr>)) \<and>
      (task_known E t \<and> \<not> dataset_known E t \<longrightarrow>
         get_preprocessor E t (Some n) w =
           (Inl (ServiceError (GetDataset t)),
            w\<lparr>calls := calls w @ [(apikey w, GetTask t), (apikey w, GetDataset t)]\<rparr>)) \<and>
      (task_known E t \<and> dataset_known E t \<and> categorical_indicator E t = None \<longrightarrow>
         get_preprocessor E t (Some n) w =
           (Inl (ServiceError (GetData t)),
            w\<lparr>calls := calls w @
              [(apikey w, GetTask t), (apikey w, GetDataset t), (apikey w, GetData t)]\<rparr>)))"
  by (auto simp: get_preprocessor_None get_preprocessor_fails get_preprocessor_fetched
      get_preprocessor_task_unknown get_preprocessor_dataset_unknown
      get_preprocessor_indicator_unknown)

theorem get_preprocessor_none_or_unknown_witness:
  "''bogus'' \<noteq> ''default'' \<and> task_known env0 (IntId 1) \<and> dataset_known env0 (IntId 1) \<and>
   categorical_indicator env0 (IntId 1) \<noteq> None \<and>
   get_preprocessor env0 (IntId 1) None world0 = (Inr None, world0) \<and>
   get_preprocessor env0 (IntId 1) (Some ''bogus'') world0 =
     (Inl (ValueError ''Preprocessor bogus unknown''),
      world0\<lparr>calls := [([], GetTask (IntId 1)), ([], GetDataset (IntId 1)),
                        ([], GetData (IntId 1))]\<rparr>)"
  using get_preprocessor_none_or_unknown [of env0 "IntId 1" world0 "''bogus''"]
  by (simp add: env0_def world0_def)

text \<open>
  Against claim C5 as stated: where the task cannot be fetched, an unknown preprocessor
  name ends in the service's error after one call, not in the unknown-preprocessor error.
\<close>

theorem get_preprocessor_unknown_service_error:
  "get_preprocessor env_offline (IntId 1) (Some ''bogus'') world0 =
     (Inl (ServiceError (GetTask (IntId 1))), world0\<lparr>calls := [([], GetTask (IntId 1))]\<rparr>)"
  by (simp add: get_preprocessor_task_unknown env_offline_def env0_def world0_def)

text \<open>
  Claim C6. When the dataset behind the task reports the categorical indicator \<open>cs\<close>
  (of length \<open>k\<close>), \<open>get_preprocessor(task_id, "default")\<close> returns the two-stage
  pipeline (conditional imputer, then one-hot encoder) built from \<open>cs\<close> without its
  last entry, the label: these are the first \<open>k - 1\<close> entries, and their number is
  \<open>k - 1\<close> whenever the indicator has a last entry at all.
\<close>

theorem get_preprocessor_default_drops_label:
  assumes "task_known E t" "dataset_known E t" "categorical_indicator E t = Some cs"
  shows "fst (get_preprocessor E t (Some ''default'') w) =
           Inr (Some [ConditionalImputer (take (length cs - 1) cs) ''mean'' ''most_frequent'',
                      OneHotEncoder (take (length cs - 1) cs) ''ignore'' False]) \<and>
         (cs \<noteq> [] \<longrightarrow> cs = take (length cs - 1) cs @ [last cs] \<and>
            int (length (take (length cs - 1) cs)) = int (length cs) - 1)"
proof -
  have "cs = take (length cs - 1) cs @ [last cs]" if "cs \<noteq> []"
    using append_butlast_last_id [OF that] by (simp add: butlast_conv_take)
  moreover have "int (length (take (length cs - 1) cs)) = int (length cs) - 1" if "cs \<noteq> []"
    using that by (cases cs) simp_all
  ultimately show ?thesis
    using assms by (simp add: get_preprocessor_fetched butlast_conv_take)
qed

theorem get_preprocessor_default_drops_label_witness:
  "task_known env0 (IntId 3) \<and> dataset_known env0 (IntId 3) \<and>
   categorical_indicator env0 (IntId 3) = Some [False, True, False] \<and>
   fst (get_preprocessor env0 (IntId 3) (Some ''default'') world0) =
     Inr (Some [ConditionalImputer [False, True] ''mean'' ''most_frequent'',
                OneHotEncoder [False, True] ''ignore'' False])"
  using get_preprocessor_default_drops_label [of env0 "IntId 3" "[False, True, False]" world0]
  by (simp add: env0_def)

subsection \<open>Running a job\<close>

lemma bind_set_apikey: "io_bind (set_apikey k) f w = f () (w\<lparr>apikey := k\<rparr>)"
  by (simp add: io_bind_apply set_apikey_def)

lemma run_job_unknown_no_preprocessor:
  assumes "clf_name \<noteq> ''tpot''" "clf_name \<noteq> ''autosklearn''"
  shows "run_job E clf_name t wc tc ac None key w =
    (Inl (ValueError (''Classifier name '' @ clf_name @ '' unknown'')),
     if truthy key then w\<lparr>apikey := the key\<rparr> else w)"
  using assms
  by (cases key)
     (simp_all add: run_job_def io_bind_apply get_preprocessor_None set_apikey_def
        io_return_def io_raise_def truthy_def)

lemma run_job_unknown_default:
  assumes "clf_name \<noteq> ''tpot''" "clf_name \<noteq> ''autosklearn''"
    and "task_known E t" "dataset_known E t" "categorical_indicator E t = Some cs"
  shows "run_job E clf_name t wc tc ac (Some ''default'') key w =
    (Inl (ValueError (''Classifier name '' @ clf_name @ '' unknown'')),
     (if truthy key then w\<lparr>apikey := the key\<rparr> else w)
       \<lparr>calls := calls w @
          [(if truthy key then the key else apikey w, GetTask t),
           (if truthy key then the key else apikey w, GetDataset t),
           (if truthy key then the key else apikey w, GetData t)]\<rparr>)"
  using assms
  by (cases key)
     (simp_all add: run_job_def io_bind_apply get_preprocessor_fetched [where cs = cs]
        set_apikey_def io_return_def io_raise_def truthy_def)

text \<open>
  Claim C1, as the code has it. \<open>run_job\<close> resolves the preprocessor before it looks at
  the classifier name. With a name other than \<open>"tpot"\<close> and \<open>"autosklearn"\<close> and no
  preprocessor (\<open>None\<close>) it fails with the unknown-classifier error and makes no call to
  the tracking service; with the preprocessor \<open>"default"\<close> the task, its dataset and the
  categorical indicator are fetched first (three calls) and, these succeeding, the same
  error follows with no further call.
\<close>

theorem run_job_unknown_classifier:
  assumes "clf_name \<noteq> ''tpot''" "clf_name \<noteq> ''autosklearn''"
  shows "fst (run_job E clf_name t wc tc ac None key w) =
           Inl (ValueError (''Classifier name '' @ clf_name @ '' unknown'')) \<and>
         calls (snd (run_job E clf_name t wc tc ac None key w)) = calls w \<and>
         (task_known E t \<and> dataset_known E t \<and> categorical_indicator E t \<noteq> None \<longrightarrow>
            fst (run_job E clf_name t wc tc ac (Some ''default'') key w) =
              Inl (ValueError (''Classifier name '' @ clf_name @ '' unknown'')) \<and>
            map snd (calls (snd (run_job E clf_name t wc tc ac (Some ''default'') key w))) =
              map snd (calls w) @ [GetTask t, GetDataset t, GetData t])"
  using assms
  by (auto simp: run_job_unknown_no_preprocessor run_job_unknown_default)

theorem run_job_unknown_classifier_witness:
  "''other'' \<noteq> ''tpot'' \<and> ''other'' \<noteq> ''autosklearn'' \<and>
   fst (run_job env0 ''other'' (IntId 1) (PDict []) (PDict []) (PDict []) None None world0) =
     Inl (ValueError ''Classifier name other unknown'') \<and>
   calls (snd (run_job env0 ''other'' (IntId 1) (PDict []) (PDict []) (PDict []) None None
     world0)) = []"
  using run_job_unknown_classifier
    [of "''other''" env0 "IntId 1" "PDict []" "PDict []" "PDict []" None world0]
  by (simp add: world0_def)

text \<open>
  Against claim C1 as stated: with the preprocessor \<open>"default"\<close> (the command line's
  default), an unknown classifier name is reported only after three calls to the
  tracking service.
\<close>

theorem run_job_unknown_classifier_calls_service:
  "run_job env0 ''other'' (IntId 1) (PDict []) (PDict []) (PDict []) (Some ''default'') None
     world0 =
   (Inl (ValueError ''Classifier name other unknown''),
    world0\<lparr>calls := [([], GetTask (IntId 1)), ([], GetDataset (IntId 1)),
                       ([], GetData (IntId 1))]\<rparr>)"
  by (simp add: run_job_unknown_default [where cs = "[False, True, False]"] env0_def
      world0_def truthy_def)

subsection \<open>The API key and the order of calls\<close>

lemma preserves_return: "preserves P (io_return x)"
  by (simp add: preserves_def io_return_def)

lemma preserves_raise: "preserves P (io_raise e)"
  by (simp add: preserves_def io_raise_def)

lemma preserves_bind:
  assumes "preserves P m" "\<And>x. preserves P (f x)"
  shows "preserves P (io_bind m f)"
proof -
  have "P (snd (io_bind m f w))" if "P w" for w
  proof (cases "m w")
    case (Pair r w1)
    with assms(1) that have p1: "P w1"
      by (auto simp: preserves_def dest: spec [of _ w])
    show ?thesis
    proof (cases r)
      case (Inl e)
      with Pair p1 show ?thesis by (simp add: io_bind_apply)
    next
      case (Inr x)
      from assms(2) [of x] p1 have "P (snd (f x w1))" by (simp add: preserves_def)
      with Pair Inr show ?thesis by (simp add: io_bind_apply)
    qed
  qed
  then show ?thesis by (simp add: preserves_def)
qed

lemma preserves_api: "preserves (keyed k w0) (api c r)"
  by (auto simp: preserves_def keyed_def api_def Let_def split: option.splits)

lemma preserves_get_preprocessor: "preserves (keyed k w0) (get_preprocessor E t name)"
  unfolding get_preprocessor_def get_task_def get_dataset_def get_data_categorical_def Let_def
  by (cases name) (auto intro!: preserves_bind preserves_api preserves_return preserves_raise)

lemma preserves_construct: "preserves P (construct E cls p a b)"
  unfolding construct_def
  by (auto intro: preserves_return preserves_raise split: sum.splits)

lemma preserves_get_server: "preserves P get_server"
  by (simp add: preserves_def get_server_def)

lemma preserves_run_job_body:
  "preserves (keyed k w0)
     (io_bind (get_preprocessor E task_id preprocessor) (\<lambda>preprocessor.
     io_bind
       (if clf_name = ''tpot'' then
          construct E TPOTWrapper preprocessor wrapper_config tpot_config
        else if clf_name = ''autosklearn'' then
          construct E AutoSklearnWrapper preprocessor wrapper_config autosklearn_config
        else io_raise (ValueError (''Classifier name '' @ clf_name @ '' unknown''))) (\<lambda>clf.
     io_bind (get_task E task_id) (\<lambda>task.
     io_bind (run_model_on_task E task clf) (\<lambda>run.
     io_bind (publish E run) (\<lambda>run_id.
     io_bind get_server (\<lambda>srv.
     io_return (run_id, srv @ ''/json/run/'' @ str_int run_id))))))))"
  unfolding get_task_def run_model_on_task_def publish_def
  by (intro preserves_bind preserves_get_preprocessor preserves_api preserves_get_server
        preserves_return) (simp add: preserves_construct preserves_raise)

lemma run_job_keyed:
  assumes "k \<noteq> []"
  shows "keyed k w (snd (run_job E clf t wc tc ac p (Some k) w))"
proof -
  have "keyed k w (w\<lparr>apikey := k\<rparr>)" by (simp add: keyed_def)
  with preserves_run_job_body [of k w E t p clf wc tc ac]
  show ?thesis using assms
    unfolding run_job_def preserves_def
    by (simp add: truthy_def bind_set_apikey)
qed

lemma run_job_sample:
  "run_job env0 ''tpot'' (IntId 3) (PDict []) (PDict []) (PDict []) (Some ''default'')
     (Some ''KEY'') world0 =
   (Inr (2, ''srv/json/run/2''),
    world0\<lparr>apikey := ''KEY'',
      calls := [(''KEY'', GetTask (IntId 3)), (''KEY'', GetDataset (IntId 3)),
                (''KEY'', GetData (IntId 3)), (''KEY'', GetTask (IntId 3)),
                (''KEY'', RunModelOnTask (IntId 3) (TPOTWrapper
                   (Some [ConditionalImputer [False, True] ''mean'' ''most_frequent'',
                          OneHotEncoder [False, True] ''ignore'' False]) [])),
                (''KEY'', Publish (IntId 3) (TPOTWrapper
                   (Some [ConditionalImputer [False, True] ''mean'' ''most_frequent'',
                          OneHotEncoder [False, True] ''ignore'' False]) []))]\<rparr>)"
  by code_simp

text \<open>
  Claim C9. When \<open>run_job\<close> is given an API key (a non-empty string, which is what the
  guard \<open>if apikey:\<close> accepts), the key is the client's process-global key when \<open>run_job\<close>
  ends, the calls made before \<open>run_job\<close> are untouched, and every call to the tracking
  service that \<open>run_job\<close> makes goes out under that key: none precedes the assignment.
\<close>

theorem run_job_key_before_calls:
  assumes "k \<noteq> []"
  shows "apikey (snd (run_job E clf t wc tc ac p (Some k) w)) = k \<and>
         take (length (calls w)) (calls (snd (run_job E clf t wc tc ac p (Some k) w))) = calls w \<and>
         (\<forall>c \<in> set (drop (length (calls w))
                       (calls (snd (run_job E clf t wc tc ac p (Some k) w)))). fst c = k)"
  using run_job_keyed [OF assms, of w E clf t wc tc ac p]
  by (auto simp: keyed_def list_all_iff)

theorem run_job_key_before_calls_witness:
  "''KEY'' \<noteq> [] \<and>
   apikey (snd (run_job env0 ''tpot'' (IntId 3) (PDict []) (PDict []) (PDict [])
     (Some ''default'') (Some ''KEY'') world0)) = ''KEY'' \<and>
   map fst (drop (length (calls world0)) (calls (snd (run_job env0 ''tpot'' (IntId 3) (PDict [])
     (PDict []) (PDict []) (Some ''default'') (Some ''KEY'') world0)))) =
     [''KEY'', ''KEY'', ''KEY'', ''KEY'', ''KEY'', ''KEY'']"
  using run_job_key_before_calls [of "''KEY''" env0 "''tpot''" "IntId 3" "PDict []" "PDict []"
    "PDict []" "Some ''default''" world0]
  by (simp add: run_job_sample) (simp add: world0_def)

subsection \<open>Writing job scripts\<close>

lemma job_script_text:
  "job_script self t c p l =
     headers self @ [CHR 0x0A] @ python_interpreter self @ '' -m arbok --classifier '' @ c @
     '' --task-id '' @ format_id t @ '' --config '' @ config_file self @
     '' --preprocessor '' @ format_opt p @ '' --log '' @ l @ '' ''"
  by (simp add: job_script_def)

lemma fwrite_after_update:
  "fwrite p s (w\<lparr>files := AList.update p c (files w), written := x\<rparr>) =
     (Inr (), w\<lparr>files := AList.update p (c @ s) (files w), written := x\<rparr>)"
  by (simp add: fwrite_def update_conv' update_last)

lemma create_job_effect:
  "create_job self t c p l w =
     (if can_open_w w (job_file c t)
      then (Inr self, w\<lparr>files := AList.update (job_file c t) (job_script self t c p l) (files w),
                          written := written w @ [job_file c t]\<rparr>)
      else (Inl (OSError (job_file c t)), w))"
  by (simp add: create_job_def Let_def io_bind_apply open_w_def fwrite_after_update
      io_return_def job_script_def)

lemma can_open_w_files [simp]:
  "can_open_w (w\<lparr>files := fs, written := x\<rparr>) p = can_open_w w p"
  by (simp add: can_open_w_def isdir_def parent_exists_def)

text \<open>
  Claim C7. Once \<open>create_job\<close> has succeeded for a (classifier, task) pair, calling it
  again for the same pair with any preprocessor and log succeeds without complaint,
  replaces the content of the same file \<open>jobs/{clf_name}_{task_id}.sh\<close> and adds no
  other file: the script then holds the header and the one invocation line built from
  the latest arguments only.
\<close>

theorem create_job_overwrites:
  assumes "create_job self t c p1 l1 w = (Inr s1, w1)"
  shows "create_job self' t c p2 l2 w1 =
           (Inr self',
            w1\<lparr>files := AList.update (''jobs/'' @ c @ ''_'' @ format_id t @ ''.sh'')
                          (job_script self' t c p2 l2) (files w1),
                written := written w1 @ [''jobs/'' @ c @ ''_'' @ format_id t @ ''.sh'']\<rparr>) \<and>
         map_of (files (snd (create_job self' t c p2 l2 w1)))
             (''jobs/'' @ c @ ''_'' @ format_id t @ ''.sh'') =
           Some (headers self' @ [CHR 0x0A] @ python_interpreter self' @
                 '' -m arbok --classifier '' @ c @ '' --task-id '' @ format_id t @
                 '' --config '' @ config_file self' @
                 '' --preprocessor '' @ format_opt p2 @ '' --log '' @ l2 @ '' '') \<and>
         map fst (files (snd (create_job self' t c p2 l2 w1))) = map fst (files w1)"
proof -
  let ?f = "job_file c t"
  from assms have ok: "can_open_w w ?f"
    and w1: "w1 = w\<lparr>files := AList.update ?f (job_script self t c p1 l1) (files w),
                      written := written w @ [?f]\<rparr>"
    by (auto simp: create_job_effect split: if_splits)
  from ok w1 have ok1: "can_open_w w1 ?f" by simp
  from w1 have "?f \<in> fst ` set (files w1)" by (simp add: dom_update)
  then have keys: "map fst (AList.update ?f x (files w1)) = map fst (files w1)" for x
    by (simp add: update_keys)
  from ok1 keys show ?thesis
    by (simp add: create_job_effect update_conv' job_file_def job_script_def)
qed

theorem create_job_overwrites_witness:
  "create_job bench0 (IntId 3) ''tpot'' (Some ''default'') ''log.json'' world0 =
     (Inr bench0,
      world0\<lparr>files := [(''jobs/tpot_3.sh'',
          ''#PBS\<newline>python -m arbok --classifier tpot --task-id 3 --config config.json --preprocessor default --log log.json '')],
        written := [''jobs/tpot_3.sh'']\<rparr>) \<and>
   map_of (files (snd (create_job bench0 (IntId 3) ''tpot'' None ''log.json''
      (world0\<lparr>files := [(''jobs/tpot_3.sh'',
          ''#PBS\<newline>python -m arbok --classifier tpot --task-id 3 --config config.json --preprocessor default --log log.json '')],
        written := [''jobs/tpot_3.sh'']\<rparr>)))) ''jobs/tpot_3.sh'' =
     Some ''#PBS\<newline>python -m arbok --classifier tpot --task-id 3 --config config.json --preprocessor None --log log.json ''"
proof -
  have first: "create_job bench0 (IntId 3) ''tpot'' (Some ''default'') ''log.json'' world0 =
     (Inr bench0,
      world0\<lparr>files := [(''jobs/tpot_3.sh'',
          ''#PBS\<newline>python -m arbok --classifier tpot --task-id 3 --config config.json --preprocessor default --log log.json '')],
        written := [''jobs/tpot_3.sh'']\<rparr>)"
    by code_simp
  have path: "''jobs/'' @ ''tpot'' @ ''_'' @ format_id (IntId 3) @ ''.sh'' = ''jobs/tpot_3.sh''"
    by (simp add: eval_str)
  have scr: "headers bench0 @ [CHR 0x0A] @ python_interpreter bench0 @
      '' -m arbok --classifier '' @ ''tpot'' @ '' --task-id '' @ format_id (IntId 3) @
      '' --config '' @ config_file bench0 @
      '' --preprocessor '' @ format_opt None @ '' --log '' @ ''log.json'' @ '' '' =
    ''#PBS\<newline>python -m arbok --classifier tpot --task-id 3 --config config.json --preprocessor None --log log.json ''"
    by (simp add: bench0_def format_opt_def eval_str)
  from create_job_overwrites [OF first, of bench0 None "''log.json''"]
  show ?thesis unfolding path scr using first by blast
qed

subsection \<open>Writing all job scripts\<close>

lemma create_jobs_tasks_effect:
  assumes "\<forall>t \<in> set ts. can_open_w w (job_file c t)"
  shows "create_jobs_tasks self c ts w =
     (Inr (), w\<lparr>files := fold (\<lambda>t. AList.update (job_file c t)
                                (job_script self t c (Some ''default'') ''log.json''))
                            ts (files w),
                 written := written w @ map (job_file c) ts\<rparr>)"
  using assms
proof (induction ts arbitrary: w)
  case Nil
  then show ?case by (simp add: io_return_def)
next
  case (Cons t ts)
  let ?w1 = "w\<lparr>files := AList.update (job_file c t)
                  (job_script self t c (Some ''default'') ''log.json'') (files w),
                written := written w @ [job_file c t]\<rparr>"
  have "\<forall>t \<in> set ts. can_open_w ?w1 (job_file c t)" using Cons.prems by simp
  from Cons.IH [OF this] Cons.prems show ?case
    by (simp add: io_bind_apply create_job_effect)
qed

lemma create_jobs_classifiers_effect:
  assumes "\<forall>c \<in> set cs. \<forall>t \<in> set ts. can_open_w w (job_file c t)"
  shows "create_jobs_classifiers self ts cs w =
     (Inr (), w\<lparr>files := fold (\<lambda>(c, t). AList.update (job_file c t)
                                (job_script self t c (Some ''default'') ''log.json''))
                            (List.product cs ts) (files w),
                 written := written w @ map (\<lambda>(c, t). job_file c t) (List.product cs ts)\<rparr>)"
  using assms
proof (induction cs arbitrary: w)
  case Nil
  then show ?case by (simp add: io_return_def)
next
  case (Cons c cs)
  let ?w1 = "w\<lparr>files := fold (\<lambda>t. AList.update (job_file c t)
                  (job_script self t c (Some ''default'') ''log.json'')) ts (files w),
                written := written w @ map (job_file c) ts\<rparr>"
  have inner: "create_jobs_tasks self c ts w = (Inr (), ?w1)"
    using Cons.prems by (simp add: create_jobs_tasks_effect)
  have "\<forall>c \<in> set cs. \<forall>t \<in> set ts. can_open_w ?w1 (job_file c t)"
    using Cons.prems by simp
  from Cons.IH [OF this] inner show ?case
    by (simp add: io_bind_apply fold_map comp_def)
qed

lemma fold_update_keys:
  "fst ` set (fold (\<lambda>p. AList.update (kf p) (vf p)) ps m) = fst ` set m \<union> kf ` set ps"
  by (induction ps arbitrary: m) (auto simp: dom_update)

lemma fold_update_other:
  "k \<notin> kf ` set ps \<Longrightarrow> map_of (fold (\<lambda>p. AList.update (kf p) (vf p)) ps m) k = map_of m k"
  by (induction ps arbitrary: m) (auto simp: update_conv')

lemma fold_update_last:
  assumes "distinct (map kf ps)" "p \<in> set ps"
  shows "map_of (fold (\<lambda>p. AList.update (kf p) (vf p)) ps m) (kf p) = Some (vf p)"
  using assms
proof (induction ps arbitrary: m)
  case Nil
  then show ?case by simp
next
  case (Cons q ps)
  show ?case
  proof (cases "p \<in> set ps")
    case True
    with Cons show ?thesis by simp
  next
    case False
    with Cons.prems have "p = q" "kf p \<notin> kf ` set ps" by auto
    then show ?thesis by (simp add: fold_update_other update_conv')
  qed
qed

text \<open>
  Claim C2, as the code has it. For a list of \<open>N\<close> task identifiers \<open>ts\<close> (a set, in the
  order it is iterated) and a list of \<open>M\<close> classifier names \<open>cs\<close>, where each job path can
  be opened for writing (the directory \<open>jobs\<close> exists), \<open>create_jobs\<close> returns \<open>self\<close>
  and writes \<open>N \<times> M\<close> times: once per (classifier, task) pair, classifier by classifier
  and task by task within a classifier, each time to \<open>jobs/{classifier}_{task_id}.sh\<close>
  with the script of its pair. Without a classifier list the two names \<open>tpot\<close> and
  \<open>autosklearn\<close> are used. The job files there are afterwards are the paths written to,
  so at most \<open>N \<times> M\<close>, and exactly \<open>N \<times> M\<close> if and only if no two pairs share a path;
  then each file holds the script of its pair. No two pairs share a path when the
  classifier names are pairwise different and the task identifiers are pairwise
  different integers.
\<close>

theorem create_jobs_writes:
  assumes "\<forall>c \<in> set cs. \<forall>t \<in> set ts. can_open_w w (job_file c t)"
  shows "create_jobs self ts (Some cs) w =
     (Inr self,
      w\<lparr>files := fold (\<lambda>(c, t). AList.update (''jobs/'' @ c @ ''_'' @ format_id t @ ''.sh'')
                          (job_script self t c (Some ''default'') ''log.json''))
                       (List.product cs ts) (files w),
         written := written w @
           map (\<lambda>(c, t). ''jobs/'' @ c @ ''_'' @ format_id t @ ''.sh'') (List.product cs ts)\<rparr>) \<and>
     length (map (\<lambda>(c, t). ''jobs/'' @ c @ ''_'' @ format_id t @ ''.sh'') (List.product cs ts)) =
       length ts * length cs \<and>
     List.product cs ts = concat (map (\<lambda>c. map (\<lambda>t. (c, t)) ts) cs) \<and>
     create_jobs self ts None = create_jobs self ts (Some [''tpot'', ''autosklearn'']) \<and>
     fst ` set (files (snd (create_jobs self ts (Some cs) w))) =
       fst ` set (files w) \<union>
       set (map (\<lambda>(c, t). ''jobs/'' @ c @ ''_'' @ format_id t @ ''.sh'') (List.product cs ts)) \<and>
     card (set (map (\<lambda>(c, t). ''jobs/'' @ c @ ''_'' @ format_id t @ ''.sh'') (List.product cs ts)))
       \<le> length ts * length cs \<and>
     (card (set (map (\<lambda>(c, t). ''jobs/'' @ c @ ''_'' @ format_id t @ ''.sh'') (List.product cs ts)))
        = length ts * length cs \<longleftrightarrow>
      distinct (map (\<lambda>(c, t). ''jobs/'' @ c @ ''_'' @ format_id t @ ''.sh'') (List.product cs ts))) \<and>
     (distinct (map (\<lambda>(c, t). ''jobs/'' @ c @ ''_'' @ format_id t @ ''.sh'') (List.product cs ts))
        \<longrightarrow> list_all (\<lambda>(c, t).
              map_of (files (snd (create_jobs self ts (Some cs) w)))
                (''jobs/'' @ c @ ''_'' @ format_id t @ ''.sh'') =
              Some (job_script self t c (Some ''default'') ''log.json'')) (List.product cs ts)) \<and>
     (distinct cs \<and> distinct ts \<and> list_all is_int_id ts \<longrightarrow>
        distinct (map (\<lambda>(c, t). ''jobs/'' @ c @ ''_'' @ format_id t @ ''.sh'')
          (List.product cs ts)))"
proof -
  let ?kf = "\<lambda>(c, t). ''jobs/'' @ c @ ''_'' @ format_id t @ ''.sh''"
  let ?vf = "\<lambda>(c :: string, t). job_script self t c (Some ''default'') ''log.json''"
  let ?ps = "List.product cs ts"
  have upd: "(\<lambda>(c, t). AList.update (''jobs/'' @ c @ ''_'' @ format_id t @ ''.sh'')
                (job_script self t c (Some ''default'') ''log.json'')) =
             (\<lambda>p. AList.update (?kf p) (?vf p))"
    by (simp add: fun_eq_iff split: prod.split)
  have run: "create_jobs self ts (Some cs) w =
     (Inr self,
      w\<lparr>files := fold (\<lambda>(c, t). AList.update (''jobs/'' @ c @ ''_'' @ format_id t @ ''.sh'')
                          (job_script self t c (Some ''default'') ''log.json''))
                       ?ps (files w),
         written := written w @ map ?kf ?ps\<rparr>)"
    using create_jobs_classifiers_effect [OF assms, of self]
    by (simp add: create_jobs_def default_arg_def io_bind_apply io_return_def job_file_def)
  have files: "files (snd (create_jobs self ts (Some cs) w)) =
      fold (\<lambda>p. AList.update (?kf p) (?vf p)) ?ps (files w)"
    unfolding run upd by simp
  have len: "length (map ?kf ?ps) = length ts * length cs"
    by (simp add: length_product)
  have prod: "List.product cs ts = concat (map (\<lambda>c. map (\<lambda>t. (c, t)) ts) cs)"
    by (induction cs) simp_all
  have dflt: "create_jobs self ts None = create_jobs self ts (Some [''tpot'', ''autosklearn''])"
    by (simp add: create_jobs_def default_arg_def)
  have names: "fst ` set (files (snd (create_jobs self ts (Some cs) w))) =
       fst ` set (files w) \<union> set (map ?kf ?ps)"
    unfolding files by (simp add: fold_update_keys)
  have le: "card (set (map ?kf ?ps)) \<le> length ts * length cs"
    unfolding len [symmetric] by (rule card_length)
  have eq: "card (set (map ?kf ?ps)) = length ts * length cs \<longleftrightarrow> distinct (map ?kf ?ps)"
    unfolding len [symmetric]
    using card_distinct [of "map ?kf ?ps"] distinct_card [of "map ?kf ?ps"] by blast
  have last: "distinct (map ?kf ?ps) \<longrightarrow>
      list_all (\<lambda>(c, t). map_of (files (snd (create_jobs self ts (Some cs) w)))
                (''jobs/'' @ c @ ''_'' @ format_id t @ ''.sh'') =
              Some (job_script self t c (Some ''default'') ''log.json'')) ?ps"
  proof
    assume d: "distinct (map ?kf ?ps)"
    have "map_of (fold (\<lambda>p. AList.update (?kf p) (?vf p)) ?ps (files w)) (?kf p) = Some (?vf p)"
      if "p \<in> set ?ps" for p
      using d that by (rule fold_update_last)
    then show "list_all (\<lambda>(c, t). map_of (files (snd (create_jobs self ts (Some cs) w)))
                (''jobs/'' @ c @ ''_'' @ format_id t @ ''.sh'') =
              Some (job_script self t c (Some ''default'') ''log.json'')) ?ps"
      unfolding files list_all_iff by fastforce
  qed
  have dist: "distinct cs \<and> distinct ts \<and> list_all is_int_id ts \<longrightarrow> distinct (map ?kf ?ps)"
    using distinct_job_files [of cs ts] by (simp add: job_file_def)
  from run len prod dflt names le eq last dist show ?thesis by blast
qed

theorem create_jobs_writes_witness:
  "list_all (\<lambda>c. list_all (\<lambda>t. can_open_w world0 (job_file c t)) [IntId 3, IntId 6])
     [''tpot'', ''autosklearn''] \<and>
   distinct [''tpot'', ''autosklearn''] \<and> distinct [IntId 3, IntId 6] \<and>
   list_all is_int_id [IntId 3, IntId 6] \<and>
   fst (create_jobs bench0 [IntId 3, IntId 6] None world0) = Inr bench0 \<and>
   written (snd (create_jobs bench0 [IntId 3, IntId 6] None world0)) =
     [''jobs/tpot_3.sh'', ''jobs/tpot_6.sh'', ''jobs/autosklearn_3.sh'',
      ''jobs/autosklearn_6.sh''] \<and>
   distinct [''jobs/tpot_3.sh'', ''jobs/tpot_6.sh'', ''jobs/autosklearn_3.sh'',
      ''jobs/autosklearn_6.sh''] \<and>
   fst ` set (files (snd (create_jobs bench0 [IntId 3, IntId 6] (Some [''tpot'', ''autosklearn''])
      world0))) =
     {''jobs/tpot_3.sh'', ''jobs/tpot_6.sh'', ''jobs/autosklearn_3.sh'', ''jobs/autosklearn_6.sh''} \<and>
   card {''jobs/tpot_3.sh'', ''jobs/tpot_6.sh'', ''jobs/autosklearn_3.sh'',
      ''jobs/autosklearn_6.sh''} = 2 * 2"
proof -
  have ok: "\<forall>c \<in> set [''tpot'', ''autosklearn'']. \<forall>t \<in> set [IntId 3, IntId 6].
      can_open_w world0 (job_file c t)"
    by (simp add: job_file_def eval_str eval_path world0_def)
  from create_jobs_writes [OF ok, of bench0] ok show ?thesis
    by (simp add: world0_def eval_str)
qed

text \<open>
  Against claim C2 as stated: a classifier name given twice (\<open>M = 2\<close>) with one task
  (\<open>N = 1\<close>) makes \<open>create_jobs\<close> write twice to the same path, and one job file is
  there afterwards, not two.
\<close>

theorem create_jobs_repeated_classifier:
  "fst (create_jobs bench0 [IntId 3] (Some [''tpot'', ''tpot'']) world0) = Inr bench0 \<and>
   written (snd (create_jobs bench0 [IntId 3] (Some [''tpot'', ''tpot'']) world0)) =
     [''jobs/tpot_3.sh'', ''jobs/tpot_3.sh''] \<and>
   map fst (files (snd (create_jobs bench0 [IntId 3] (Some [''tpot'', ''tpot'']) world0))) =
     [''jobs/tpot_3.sh''] \<and>
   length [IntId 3] * length [''tpot'', ''tpot''] = (2 :: nat)"
  by code_simp

subsection \<open>The jobs directory\<close>

lemma submit_files_effect:
  assumes "qsub_available E"
  shows "submit_files E fs w =
     (Inr (), w\<lparr>stdout := stdout w @ map (\<lambda>f. ''Submitting jobs/'' @ f) fs,
                 submitted := submitted w @ map (\<lambda>f. ''jobs/'' @ f) fs\<rparr>)"
  using assms
  by (induction fs arbitrary: w) (simp_all add: io_return_def io_bind_apply print_def qsub_def)

lemma submit_jobs_effect:
  "submit_jobs E self w =
     (if isdir w ''jobs/'' then
        case submit_files E (filter (\<lambda>f. isfile w (''jobs/'' @ f))
               (map basename (filter (\<lambda>p. dirname p = ''jobs'') (map fst (files w) @ dirs w)))) w
        of (Inl e, w') \<Rightarrow> (Inl e, w') | (Inr u, w') \<Rightarrow> (Inr self, w')
      else (Inl (OSError ''jobs/''), w))"
proof -
  have j: "path_join ''jobs/'' f = ''jobs/'' @ f" if "f \<in> basename ` A" for f A
  proof -
    from that obtain p where "f = basename p" by auto
    then have "CHR ''/'' \<notin> set f"
      by (auto simp: basename_def dest: set_takeWhileD)
    then have "f = [] \<or> hd f \<noteq> CHR ''/''" by (cases f) auto
    then show ?thesis by (auto simp: path_join_def)
  qed
  have s: "strip_slashes ''jobs/'' = ''jobs''" by (simp add: strip_slashes_def)
  have "filter (\<lambda>f. isfile w (path_join ''jobs/'' f)) (map basename xs)
      = filter (\<lambda>f. isfile w (''jobs/'' @ f)) (map basename xs)" for xs
    by (rule filter_cong) (auto simp: j [of _ "set xs"])
  then show ?thesis
    by (auto simp: submit_jobs_def io_bind_apply listdir_def s io_return_def
        split: sum.splits prod.splits)
qed

lemma strip_slashes_idem: "strip_slashes (strip_slashes p) = strip_slashes p"
  by (simp add: strip_slashes_def)

lemma prefixes_at_slash_whole: "acc @ p \<in> set (prefixes_at_slash acc p)"
proof (induction p arbitrary: acc)
  case Nil
  show ?case by simp
next
  case (Cons a p)
  from Cons [of "acc @ [a]"] show ?case by auto
qed

lemma makedirs_isdir:
  assumes "makedirs d w = (Inr u, w')"
  shows "isdir w' d \<and> w' = w\<lparr>dirs := dirs w'\<rparr> \<and> set (dirs w) \<subseteq> set (dirs w') \<and>
         set (dirs w') \<subseteq> set (dirs w) \<union> set (ancestors d)"
proof -
  from assms have d: "d \<noteq> []"
    and w': "w' = w\<lparr>dirs := dirs w @ filter (\<lambda>a. a \<notin> set (dirs w)) (remdups (ancestors d))\<rparr>"
    by (auto simp: makedirs_def split: if_splits)
  have "strip_slashes d \<in> set (ancestors d)" if "strip_slashes d \<noteq> []"
    using that prefixes_at_slash_whole [of "[]" "strip_slashes d"]
    by (auto simp: ancestors_def strip_slashes_idem intro!: image_eqI [of _ _ "strip_slashes d"])
  with d w' show ?thesis by (auto simp: isdir_def)
qed

lemma Benchmark_init_effect:
  assumes "Benchmark_init h i (Some d) cf w = (Inr self, w')"
  shows "self = \<lparr>python_interpreter = i, jobs_dir = d,
                  config_file = default_arg ''config.json'' cf, headers = h\<rparr> \<and>
         path_exists w' d \<and> w' = w\<lparr>dirs := dirs w'\<rparr> \<and> set (dirs w) \<subseteq> set (dirs w') \<and>
         set (dirs w') \<subseteq> set (dirs w) \<union> set (ancestors d)"
proof (cases "path_exists w d")
  case True
  with assms show ?thesis
    by (simp add: Benchmark_init_def default_arg_def io_return_def)
next
  case False
  with assms obtain u where m: "makedirs d w = (Inr u, w')"
    and s: "self = \<lparr>python_interpreter = i, jobs_dir = d,
                  config_file = default_arg ''config.json'' cf, headers = h\<rparr>"
    by (auto simp: Benchmark_init_def default_arg_def io_bind_apply io_return_def Let_def
        split: prod.splits sum.splits)
  from makedirs_isdir [OF m] s show ?thesis by (simp add: path_exists_def)
qed

text \<open>
  Claim C10. Whatever the \<open>jobs_dir\<close> of a Benchmark instance is, \<open>create_job\<close> opens
  and writes its script at \<open>jobs/{clf_name}_{task_id}.sh\<close> under the literal directory
  \<open>jobs/\<close>, and \<open>submit_jobs\<close> lists the literal directory \<open>jobs/\<close> (failing when it does
  not exist) and hands \<open>jobs/{file}\<close> to the queue for each regular file there. The
  \<open>jobs_dir\<close> argument of the constructor is kept in the instance and decides only which
  directory exists after construction: construction changes nothing but the set of
  directories, adding at most that directory and the directories above it.
\<close>

theorem jobs_directory_is_literal:
  "create_job (self\<lparr>jobs_dir := d\<rparr>) t c p l w =
     (if can_open_w w (''jobs/'' @ c @ ''_'' @ format_id t @ ''.sh'')
      then (Inr (self\<lparr>jobs_dir := d\<rparr>),
            w\<lparr>files := AList.update (''jobs/'' @ c @ ''_'' @ format_id t @ ''.sh'')
                         (job_script self t c p l) (files w),
               written := written w @ [''jobs/'' @ c @ ''_'' @ format_id t @ ''.sh'']\<rparr>)
      else (Inl (OSError (''jobs/'' @ c @ ''_'' @ format_id t @ ''.sh'')), w)) \<and>
   (\<not> isdir w ''jobs/'' \<longrightarrow>
      submit_jobs E (self\<lparr>jobs_dir := d\<rparr>) w = (Inl (OSError ''jobs/''), w)) \<and>
   (isdir w ''jobs/'' \<and> qsub_available E \<longrightarrow>
      submit_jobs E (self\<lparr>jobs_dir := d\<rparr>) w =
        (Inr (self\<lparr>jobs_dir := d\<rparr>),
         w\<lparr>stdout := stdout w @ map (\<lambda>f. ''Submitting jobs/'' @ f)
              (filter (\<lambda>f. isfile w (''jobs/'' @ f))
                (map basename (filter (\<lambda>p. dirname p = ''jobs'') (map fst (files w) @ dirs w)))),
            submitted := submitted w @ map (\<lambda>f. ''jobs/'' @ f)
              (filter (\<lambda>f. isfile w (''jobs/'' @ f))
                (map basename (filter (\<lambda>p. dirname p = ''jobs'') (map fst (files w) @ dirs w))))\<rparr>)) \<and>
   (Benchmark_init h i (Some d) cf w = (Inr self', w') \<longrightarrow>
      jobs_dir self' = d \<and> path_exists w' d \<and> w' = w\<lparr>dirs := dirs w'\<rparr> \<and>
      set (dirs w) \<subseteq> set (dirs w') \<and> set (dirs w') \<subseteq> set (dirs w) \<union> set (ancestors d))"
proof -
  have "job_script (self\<lparr>jobs_dir := d\<rparr>) t c p l = job_script self t c p l"
    by (simp add: job_script_def)
  then have a: "create_job (self\<lparr>jobs_dir := d\<rparr>) t c p l w =
     (if can_open_w w (''jobs/'' @ c @ ''_'' @ format_id t @ ''.sh'')
      then (Inr (self\<lparr>jobs_dir := d\<rparr>),
            w\<lparr>files := AList.update (''jobs/'' @ c @ ''_'' @ format_id t @ ''.sh'')
                         (job_script self t c p l) (files w),
               written := written w @ [''jobs/'' @ c @ ''_'' @ format_id t @ ''.sh'']\<rparr>)
      else (Inl (OSError (''jobs/'' @ c @ ''_'' @ format_id t @ ''.sh'')), w))"
    by (simp add: create_job_effect job_file_def)
  have b: "\<not> isdir w ''jobs/'' \<longrightarrow>
      submit_jobs E (self\<lparr>jobs_dir := d\<rparr>) w = (Inl (OSError ''jobs/''), w)"
    by (simp add: submit_jobs_effect)
  have c: "isdir w ''jobs/'' \<and> qsub_available E \<longrightarrow>
      submit_jobs E (self\<lparr>jobs_dir := d\<rparr>) w =
        (Inr (self\<lparr>jobs_dir := d\<rparr>),
         w\<lparr>stdout := stdout w @ map (\<lambda>f. ''Submitting jobs/'' @ f)
              (filter (\<lambda>f. isfile w (''jobs/'' @ f))
                (map basename (filter (\<lambda>p. dirname p = ''jobs'') (map fst (files w) @ dirs w)))),
            submitted := submitted w @ map (\<lambda>f. ''jobs/'' @ f)
              (filter (\<lambda>f. isfile w (''jobs/'' @ f))
                (map basename (filter (\<lambda>p. dirname p = ''jobs'') (map fst (files w) @ dirs w))))\<rparr>)"
    by (simp add: submit_jobs_effect submit_files_effect)
  have e: "Benchmark_init h i (Some d) cf w = (Inr self', w') \<longrightarrow>
      jobs_dir self' = d \<and> path_exists w' d \<and> w' = w\<lparr>dirs := dirs w'\<rparr> \<and>
      set (dirs w) \<subseteq> set (dirs w') \<and> set (dirs w') \<subseteq> set (dirs w) \<union> set (ancestors d)"
    using Benchmark_init_effect [of h i d cf w self' w'] by auto
  from a b c e show ?thesis by blast
qed

theorem jobs_directory_is_literal_witness:
  "isdir world1 ''jobs/'' \<and> qsub_available env0 \<and>
   submit_jobs env0 (bench0\<lparr>jobs_dir := ''out''\<rparr>) world1 =
     (Inr (bench0\<lparr>jobs_dir := ''out''\<rparr>),
      world1\<lparr>stdout := [''Submitting jobs/tpot_3.sh''], submitted := [''jobs/tpot_3.sh'']\<rparr>) \<and>
   \<not> isdir (world1\<lparr>dirs := [''out'']\<rparr>) ''jobs/'' \<and>
   submit_jobs env0 (bench0\<lparr>jobs_dir := ''out''\<rparr>) (world1\<lparr>dirs := [''out'']\<rparr>) =
     (Inl (OSError ''jobs/''), world1\<lparr>dirs := [''out'']\<rparr>) \<and>
   Benchmark_init ''#PBS'' ''python'' (Some ''out'') None world1 =
     (Inr (bench0\<lparr>jobs_dir := ''out''\<rparr>), world1\<lparr>dirs := [''jobs'', ''out'']\<rparr>) \<and>
   path_exists (world1\<lparr>dirs := [''jobs'', ''out'']\<rparr>) ''out''"
proof -
  have h1: "isdir world1 ''jobs/''" by code_simp
  have h2: "qsub_available env0" by (simp add: env0_def)
  have h3: "\<not> isdir (world1\<lparr>dirs := [''out'']\<rparr>) ''jobs/''" by code_simp
  have h4: "Benchmark_init ''#PBS'' ''python'' (Some ''out'') None world1 =
     (Inr (bench0\<lparr>jobs_dir := ''out''\<rparr>), world1\<lparr>dirs := [''jobs'', ''out'']\<rparr>)"
    by code_simp
  have names: "filter (\<lambda>f. isfile world1 (''jobs/'' @ f))
      (map basename (filter (\<lambda>p. dirname p = ''jobs'') (map fst (files world1) @ dirs world1))) =
      [''tpot_3.sh'']"
    by code_simp
  have w: "stdout world1 = []" "submitted world1 = []"
    by (simp_all add: world1_def world0_def)
  note A = jobs_directory_is_literal [where self = bench0 and d = "''out''" and E = env0
      and w = world1 and h = "''#PBS''" and i = "''python''" and cf = None
      and self' = "bench0\<lparr>jobs_dir := ''out''\<rparr>" and w' = "world1\<lparr>dirs := [''jobs'', ''out'']\<rparr>"]
  note B = jobs_directory_is_literal [where self = bench0 and d = "''out''" and E = env0
      and w = "world1\<lparr>dirs := [''out'']\<rparr>"]
  from A h1 h2 have "submit_jobs env0 (bench0\<lparr>jobs_dir := ''out''\<rparr>) world1 =
        (Inr (bench0\<lparr>jobs_dir := ''out''\<rparr>),
         world1\<lparr>stdout := stdout world1 @ map (\<lambda>f. ''Submitting jobs/'' @ f)
              (filter (\<lambda>f. isfile world1 (''jobs/'' @ f))
                (map basename (filter (\<lambda>p. dirname p = ''jobs'')
                  (map fst (files world1) @ dirs world1)))),
            submitted := submitted world1 @ map (\<lambda>f. ''jobs/'' @ f)
              (filter (\<lambda>f. isfile world1 (''jobs/'' @ f))
                (map basename (filter (\<lambda>p. dirname p = ''jobs'')
                  (map fst (files world1) @ dirs world1))))\<rparr>)"
    by blast
  then have s: "submit_jobs env0 (bench0\<lparr>jobs_dir := ''out''\<rparr>) world1 =
     (Inr (bench0\<lparr>jobs_dir := ''out''\<rparr>),
      world1\<lparr>stdout := [''Submitting jobs/tpot_3.sh''], submitted := [''jobs/tpot_3.sh'']\<rparr>)"
    unfolding names w by simp
  from A h4 have p: "path_exists (world1\<lparr>dirs := [''jobs'', ''out'']\<rparr>) ''out''"
    by blast
  from B h3 have f: "submit_jobs env0 (bench0\<lparr>jobs_dir := ''out''\<rparr>) (world1\<lparr>dirs := [''out'']\<rparr>) =
     (Inl (OSError ''jobs/''), world1\<lparr>dirs := [''out'']\<rparr>)"
    by blast
  from h1 h2 h3 h4 s p f show ?thesis by blast
qed

subsection \<open>The command line\<close>

lemma cli_errors:
  "(\<not> truthy task_id \<longrightarrow>
      cli E classifier task_id config preprocessor key log w =
        (Inl (ClickException ''Please specify a task id.''), w)) \<and>
   (truthy task_id \<and> \<not> isfile w config \<longrightarrow>
      cli E classifier task_id config preprocessor key log w =
        (Inl (ClickException ''The configuration file does not exist.''), w))"
  by (simp add: cli_def io_raise_def)

text \<open>
  Claim C8. Without \<open>--task-id\<close> (or with an empty one) the command fails with the
  message \<open>Please specify a task id.\<close>; with a task id but no regular file at the
  configuration path it fails with \<open>The configuration file does not exist.\<close>. Both
  are \<open>ClickException\<close>s, which end the process with \<open>Error: message\<close> and status 1,
  and in both cases the world is left exactly as it was: no call to the tracking
  service, no file opened or written.
\<close>

theorem cli_fails_early:
  "(\<not> truthy (opt_task_id opts) \<longrightarrow>
      cli_command E opts w = (Inl (ClickException ''Please specify a task id.''), w) \<and>
      exit_status (fst (cli_command E opts w)) = (1, Some ''Error: Please specify a task id.'')) \<and>
   (truthy (opt_task_id opts) \<and> \<not> isfile w (default_arg ''config.json'' (opt_config opts)) \<longrightarrow>
      cli_command E opts w =
        (Inl (ClickException ''The configuration file does not exist.''), w) \<and>
      exit_status (fst (cli_command E opts w)) =
        (1, Some ''Error: The configuration file does not exist.''))"
  using cli_errors [of "opt_task_id opts" E "default_arg ''tpot'' (opt_classifier opts)"
      "default_arg ''config.json'' (opt_config opts)"
      "default_arg ''default'' (opt_preprocessor opts)" "opt_apikey opts"
      "default_arg ''log.json'' (opt_log opts)" w]
  by (auto simp: cli_command_def)

theorem cli_fails_early_witness:
  "\<not> truthy (opt_task_id \<lparr>opt_classifier = None, opt_task_id = None, opt_config = None,
      opt_preprocessor = None, opt_apikey = None, opt_log = None\<rparr>) \<and>
   cli_command env0 \<lparr>opt_classifier = None, opt_task_id = None, opt_config = None,
      opt_preprocessor = None, opt_apikey = None, opt_log = None\<rparr> world0 =
     (Inl (ClickException ''Please specify a task id.''), world0) \<and>
   truthy (opt_task_id \<lparr>opt_classifier = None, opt_task_id = Some ''3'', opt_config = None,
      opt_preprocessor = None, opt_apikey = None, opt_log = None\<rparr>) \<and>
   \<not> isfile world0 (default_arg ''config.json'' (opt_config \<lparr>opt_classifier = None,
      opt_task_id = Some ''3'', opt_config = None, opt_preprocessor = None, opt_apikey = None,
      opt_log = None\<rparr>)) \<and>
   cli_command env0 \<lparr>opt_classifier = None, opt_task_id = Some ''3'', opt_config = None,
      opt_preprocessor = None, opt_apikey = None, opt_log = None\<rparr> world0 =
     (Inl (ClickException ''The configuration file does not exist.''), world0)"
  using
    cli_fails_early [of "\<lparr>opt_classifier = None, opt_task_id = None, opt_config = None,
      opt_preprocessor = None, opt_apikey = None, opt_log = None\<rparr>" env0 world0]
    cli_fails_early [of "\<lparr>opt_classifier = None, opt_task_id = Some ''3'', opt_config = None,
      opt_preprocessor = None, opt_apikey = None, opt_log = None\<rparr>" env0 world0]
  by (simp add: truthy_def default_arg_def isfile_def world0_def)

subsection \<open>The log file\<close>




lemma cli_stores_output:
  assumes "truthy (Some task_id)" "map_of (files w) config = Some text"
    and "json_loads text = Inr cfg"
    and "subscript cfg ''tpot'' = Inr tpot" "subscript cfg ''autosklearn'' = Inr autosklearn"
    and "subscript cfg ''wrapper'' = Inr wrapper"
    and "run_job E classifier (StrId task_id) wrapper tpot autosklearn (Some preprocessor) key
           (w\<lparr>stdout := stdout w @ [''Running '' @ classifier @ '' on task '' @ task_id @ ''.'']\<rparr>)
         = (Inr (run_id, output), w1)"
  shows "cli E classifier (Some task_id) config preprocessor key log w =
           store_output log run_id output w1"
  using assms
  by (simp add: cli_def isfile_def json_load_def read_file_def io_bind_apply io_lift_def
      print_def format_opt_def)





section \<open>The configuration file read back\<close>

subsection \<open>Strings\<close>




lemma char_of_div_mod: "char_of (16 * ((of_char c :: nat) div 16) + (of_char c :: nat) mod 16) = c"
  by simp





subsection \<open>Reading back what was written\<close>





































subsection \<open>Sorting the keys\<close>

lemma set_sort_items [simp]: "set (sort_items kvs) = set kvs"
  by (simp add: sort_items_def)

lemma length_sort_items [simp]: "length (sort_items kvs) = length kvs"
  by (simp add: sort_items_def)

lemma distinct_sort_items [simp]: "distinct (sort_items kvs) = distinct kvs"
  by (simp add: sort_items_def)





lemma sortable_items_iff: "sortable_items kvs \<longleftrightarrow> (\<forall>kv \<in> set kvs. sortable (snd kv))"
  by (induction kvs) auto



















end
